theory Spec2Isabelle
  imports Complex_Main
begin

section \<open>The Blackmagic media player: data model\<close>

text \<open>
  A shallow embedding of \<^verbatim>\<open>Source/BlackmagicMedia/Private/Player/BlackmagicMediaPlayer.cpp\<close>:
  the callback object \<^verbatim>\<open>FBlackmagicMediaPlayerEventCallback\<close>, which the capture library
  calls on its own thread, and the player \<^verbatim>\<open>FBlackmagicMediaPlayer\<close>, which the host ticks.

  Conventions.
  \<^item> \<^verbatim>\<open>int32\<close> values are integers of type \<open>int\<close>. The product of a buffer maximum and the
    tolerance factor, which overflows for a maximum that \<^verbatim>\<open>Open\<close> accepts, is written with
    the wrap-around of the machine (\<open>int32_mul\<close>); the counters are incremented without
    wrap-around, so the model speaks of the executions in which no counter overflows. A conversion
    to \<^verbatim>\<open>int32\<close> from a wider or an unsigned type is written out (\<open>int32_of_uint32\<close>,
    \<open>int32_of_int64\<close>). \<^verbatim>\<open>uint32\<close> values are naturals, with \<open>mod 2 ^ 32\<close> where a product
    can wrap.
  \<^item> \<^verbatim>\<open>FTimespan\<close> is its number of ticks, an \<open>int\<close>. The wall clock
    \<^verbatim>\<open>FApp::GetCurrentTime()\<close> is a \<open>real\<close> number of seconds; the code only subtracts and
    compares such values.
  \<^item> A pointer to a buffer is \<open>nat option\<close>, \<open>None\<close> for \<^verbatim>\<open>nullptr\<close>. Callback objects
    live in a store (\<open>Heap\<close>), since the player and the capture library both refer to them;
    \<^verbatim>\<open>delete this\<close> removes the object from the store.
  \<^item> The two threads are interleaved at the granularity of one method call. Of the callback
    lock only its release at the end of \<^verbatim>\<open>Uninitialize\<close> is modelled, where the object may
    be gone; the atomic counters are plain fields.
  \<^item> Code of the engine and of the capture library that this file calls (base class methods,
    sample pools, sample initialisation, time conversions, channel registration) is a
    parameter, collected in the record \<open>ext\<close>.
\<close>

datatype EMediaState = Closed | Error | Paused | Playing | Preparing | Stopped

datatype EMediaEvent =
  TracksChanged | MediaOpened | PlaybackResumed | MediaOpenFailed | OtherMediaEvent nat

datatype EFieldDominance = Progressive | Interlaced | ProgressiveSegmentedFrame

datatype EPixelFormat = pf_8Bits | pf_10Bits | pf_Other nat

datatype EMediaTextureSampleFormat = CharBGRA | CharUYVY | YUVv210

datatype EMediaIOCoreEncodePixelFormat = Encode_CharUYVY | Encode_YUVv210

datatype ETimecodeFormat = TCF_None | TCF_LTC | TCF_VITC1

datatype EMediaIOTimecodeFormat = MediaIO_None | MediaIO_LTC | MediaIO_VITC | MediaIO_Other int

datatype EBlackmagicMediaSourceColorFormat = YUV8 | YUV10 | ColorFormat_Other int

datatype EBlackmagicMediaAudioChannel = Stereo2 | Surround8 | AudioChannel_Other int

datatype error = NullPointer | UseAfterFree | AssertionFailed

text \<open>\<^verbatim>\<open>BlackmagicDesign::FTimecode\<close>, the timecode as the capture library reports it.\<close>

record BM_FTimecode =
  BM_Hours :: nat
  BM_Minutes :: nat
  BM_Seconds :: nat
  BM_Frames :: nat

text \<open>The engine's \<^verbatim>\<open>FTimecode\<close> and \<^verbatim>\<open>FFrameRate\<close>.\<close>

record FTimecode =
  Hours :: int
  Minutes :: int
  Seconds :: int
  Frames :: int
  bDropFrameFormat :: bool

record FFrameRate =
  Numerator :: int
  Denominator :: int

record FFrameReceivedInfo =
  bHasInputSource :: bool
  AudioBuffer :: "nat option"
  AudioBufferSize :: nat
  NumberOfAudioChannel :: nat
  AudioRate :: nat
  VideoBuffer :: "nat option"
  VideoPitch :: nat
  VideoWidth :: nat
  VideoHeight :: nat
  PixelFormat :: EPixelFormat
  FieldDominance :: EFieldDominance
  bHaveTimecode :: bool
  Timecode :: BM_FTimecode

text \<open>
  The samples, as the arguments their \<^verbatim>\<open>Initialize\<close> is called with.
  \<open>TS_bUseEvenLine\<close> is \<open>None\<close> for \<^verbatim>\<open>Initialize\<close> (a progressive picture) and the first
  argument of \<^verbatim>\<open>InitializeWithEvenOddLine\<close> otherwise.
\<close>

record AudioSample =
  AS_Buffer :: nat
  AS_NumSamples :: nat
  AS_NumChannels :: nat
  AS_SampleRate :: nat
  AS_Time :: int
  AS_Timecode :: "FTimecode option"

record TextureSample =
  TS_bUseEvenLine :: "bool option"
  TS_Buffer :: nat
  TS_BufferSize :: nat
  TS_Stride :: nat
  TS_Width :: nat
  TS_Height :: nat
  TS_SampleFormat :: EMediaTextureSampleFormat
  TS_Time :: int
  TS_FrameRate :: FFrameRate
  TS_Timecode :: "FTimecode option"
  TS_bIsSRGBInput :: bool

record FMediaAudioTrackFormat =
  BitsPerSample :: nat
  NumChannels :: nat
  SampleRate :: nat

record FChannelInfo =
  DeviceIndex :: int

record FInputChannelOptions =
  CallbackPriority :: int
  bReadVideo :: bool
  DisplayMode :: int
  OptPixelFormat :: EPixelFormat
  TimecodeFormat :: ETimecodeFormat
  bReadAudio :: bool
  OptNumberOfAudioChannel :: nat

text \<open>
  The fields of \<^verbatim>\<open>FBlackmagicMediaPlayerEventCallback\<close>. \<open>MediaPlayer\<close> is the back-reference
  to the player: there is one player, so the pointer is either that player (\<open>True\<close>) or
  \<^verbatim>\<open>nullptr\<close> (\<open>False\<close>). \<open>BlackmagicIdendifier\<close> is valid when it is \<open>Some\<close>.
\<close>

record callback =
  RefCounter :: int
  BlackmagicIdendifier :: "nat option"
  ChannelInfo :: FChannelInfo
  MediaPlayer :: bool
  MediaState :: EMediaState
  PreviousTimecode :: BM_FTimecode
  PrevousTimespan :: int
  bEncodeTimecodeInTexel :: bool
  LastBitsPerSample :: nat
  LastNumChannels :: nat
  LastSampleRate :: nat
  AudioFrameDropCount :: int
  MetadataFrameDropCount :: int
  VideoFrameDropCount :: int
  MaxNumAudioFrameBuffer :: int
  MaxNumVideoFrameBuffer :: int
  LastHasFrameTime :: real
  bReceivedValidFrame :: bool
  bIsTimecodeExpected :: bool
  bHasWarnedMissingTimecode :: bool
  bIsSRGBInput :: bool

text \<open>
  The part of the player that the base class \<^verbatim>\<open>FMediaIOCorePlayerBase\<close> declares, with the
  two queues of its sample container \<^verbatim>\<open>Samples\<close>.
\<close>

record base =
  CurrentState :: EMediaState
  OpenUrl :: string
  VideoFrameRate :: FFrameRate
  bUseTimeSynchronization :: bool
  bIsTimecodeLogEnable :: bool
  AudioTrackFormat :: FMediaAudioTrackFormat
  AudioSamples :: "AudioSample list"
  VideoSamples :: "TextureSample list"

text \<open>A sample pool is opaque: a state that \<^verbatim>\<open>AcquireShared\<close> and \<^verbatim>\<open>Reset\<close> change.\<close>

type_synonym pool = nat

record player =
  Super :: base
  EventCallback :: "nat option"
  AudioSamplePool :: pool
  TextureSamplePool :: pool
  bVerifyFrameDropCount :: bool

datatype log_msg =
  LostAudioFrames int string
  | LostVideoFrames int string
  | NoVideoInput string
  | InvalidTimecodeFrame string nat FFrameRate
  | HasTimecode string nat nat nat nat
  | MissingTimecode string
  | VideoFormatChanged "string option"
  | NotInitialized string
  | CannotUseCard string

datatype sdk_call =
  RegisterCallback nat FChannelInfo FInputChannelOptions
  | UnregisterCallback FChannelInfo nat

text \<open>
  The whole state: the store of callback objects, the player, and what the code sends out
  (the log, the event sink, the calls into the capture library, the raw files written and
  the timecodes burnt into pictures), with the global flag of the console command.
  \<open>NextAddr\<close> is the address that the next \<^verbatim>\<open>new\<close> returns.
\<close>

record world =
  Heap :: "nat \<Rightarrow> callback option"
  NextAddr :: nat
  ThePlayer :: player
  Log :: "log_msg list"
  Sink :: "EMediaEvent list"
  SdkCalls :: "sdk_call list"
  bBlackmagicWriteOutputRawDataCmdEnable :: bool
  RawFiles :: "(string \<times> int \<times> nat) list"
  TexelEncodes :: "(EMediaIOCoreEncodePixelFormat \<times> nat \<times> FTimecode) list"

text \<open>
  What one invocation of \<^verbatim>\<open>OnFrameReceived\<close> reads from the clocks: \<open>CurrentTime\<close> is
  \<^verbatim>\<open>FApp::GetCurrentTime()\<close> in seconds, \<open>PlatformTime\<close> is
  \<^verbatim>\<open>FTimespan::FromSeconds(MediaPlayer->GetPlatformSeconds())\<close> in ticks.
\<close>

record clock =
  CurrentTime :: real
  PlatformTime :: int

text \<open>The string-keyed options of \<^verbatim>\<open>Open\<close>; \<open>None\<close> is a key that is not set.\<close>

record IMediaOptions =
  Opt_DeviceIndex :: "int option"
  Opt_CaptureVideo :: "bool option"
  Opt_BlackmagicVideoFormat :: "int option"
  Opt_ColorFormat :: "EBlackmagicMediaSourceColorFormat option"
  Opt_SRGBInput :: "bool option"
  Opt_TimecodeFormat :: "EMediaIOTimecodeFormat option"
  Opt_CaptureAudio :: "bool option"
  Opt_AudioChannelOption :: "EBlackmagicMediaAudioChannel option"
  Opt_LogDropFrame :: "bool option"
  Opt_EncodeTimecodeInTexel :: "bool option"
  Opt_MaxAudioFrameBuffer :: "int option"
  Opt_MaxVideoFrameBuffer :: "int option"

text \<open>
  The external collaborators. A base class method acts on the base class part of the player
  and returns the notifications it sends; \<^verbatim>\<open>Super::Open\<close> may call virtual methods, so it
  acts on the whole state. \<open>RegisterCallbackForChannel\<close> returns the identifier and the number
  of references to the callback object that the capture library keeps.
  \<^item> \<open>IsInitialized\<close>, \<open>CanUseBlackmagicCard\<close>: the two queries of \<^verbatim>\<open>FBlackmagic\<close>;
    \<open>DefaultVideoFormat\<close>: \<^verbatim>\<open>BlackmagicMediaOption::DefaultVideoFormat\<close>.
  \<^item> \<open>SuperOpen\<close>, \<open>SuperClose\<close>, \<open>TickTimeManagement\<close>: the methods of the base class.
  \<^item> \<open>PoolReset\<close>, \<open>AcquireShared\<close>: \<^verbatim>\<open>Reset\<close> and \<^verbatim>\<open>AcquireShared\<close> of a sample pool, on
    the state of the pool.
  \<^item> \<open>AudioInitialize\<close>, \<open>TextureInitialize\<close>: what \<^verbatim>\<open>Initialize\<close> (for a texture sample also
    \<^verbatim>\<open>InitializeWithEvenOddLine\<close>) returns for the arguments collected in the sample.
  \<^item> \<open>IntervalTicks r\<close>: \<^verbatim>\<open>FTimespan::FromSeconds(r.AsInterval())\<close> in ticks;
    \<open>RoundedDecimal r\<close>: \<^verbatim>\<open>FMath::RoundToInt(r.AsDecimal())\<close>;
    \<open>IsDropFormatTimecodeSupported r\<close>: \<^verbatim>\<open>FTimecode::IsDropFormatTimecodeSupported(r)\<close>;
    \<open>ToTimespan t r\<close>: \<^verbatim>\<open>t.ToTimespan(r)\<close> in ticks.
\<close>

record ext =
  IsInitialized :: bool
  CanUseBlackmagicCard :: bool
  DefaultVideoFormat :: int
  SuperOpen :: "string \<Rightarrow> IMediaOptions \<Rightarrow> world \<Rightarrow> error + bool \<times> world"
  SuperClose :: "base \<Rightarrow> base \<times> EMediaEvent list"
  TickTimeManagement :: "base \<Rightarrow> base \<times> EMediaEvent list"
  RegisterCallbackForChannel :: "FChannelInfo \<Rightarrow> FInputChannelOptions \<Rightarrow> nat option \<times> nat"
  PoolReset :: "pool \<Rightarrow> pool"
  AcquireShared :: "pool \<Rightarrow> pool"
  AudioInitialize :: "AudioSample \<Rightarrow> bool"
  TextureInitialize :: "TextureSample \<Rightarrow> bool"
  IntervalTicks :: "FFrameRate \<Rightarrow> int"
  RoundedDecimal :: "FFrameRate \<Rightarrow> int"
  IsDropFormatTimecodeSupported :: "FFrameRate \<Rightarrow> bool"
  ToTimespan :: "FTimecode \<Rightarrow> FFrameRate \<Rightarrow> int"

section \<open>Helpers\<close>

definition ToleratedExtraMaxBufferCount :: int where
  "ToleratedExtraMaxBufferCount = 2"

definition sizeof_int32 :: nat where
  "sizeof_int32 = 4"

definition int32_of_uint32 :: "nat \<Rightarrow> int" where
  "int32_of_uint32 n = (if n mod 2 ^ 32 < 2 ^ 31 then int (n mod 2 ^ 32) else int (n mod 2 ^ 32) - 2 ^ 32)"

definition int32_of_int64 :: "int \<Rightarrow> int" where
  "int32_of_int64 x = (x + 2 ^ 31) mod 2 ^ 32 - 2 ^ 31"

text \<open>
  The product of two \<^verbatim>\<open>int32\<close> as the machine computes it: the low 32 bits of the exact
  product, read in two's complement.
\<close>

definition int32_mul :: "int \<Rightarrow> int \<Rightarrow> int" where
  "int32_mul a b = (a * b + 2 ^ 31) mod 2 ^ 32 - 2 ^ 31"

definition GetMediaOption :: "'a option \<Rightarrow> 'a \<Rightarrow> 'a" where
  "GetMediaOption v d = (case v of None \<Rightarrow> d | Some x \<Rightarrow> x)"

text \<open>
  Modelled from the spec: the sample container \<^verbatim>\<open>Samples\<close> of the engine, whose code is not
  in the repository. The spec (3, 4.3) has it as an ordered queue per media kind, to which
  the producer adds at the back and from which the consumer pops the oldest sample; popping
  from an empty queue leaves it empty.
\<close>

definition NumAudioSamples :: "base \<Rightarrow> int" where
  "NumAudioSamples b = int (length (AudioSamples b))"

definition NumVideoSamples :: "base \<Rightarrow> int" where
  "NumVideoSamples b = int (length (VideoSamples b))"

definition AddAudio :: "AudioSample \<Rightarrow> base \<Rightarrow> base" where
  "AddAudio s b = b\<lparr>AudioSamples := AudioSamples b @ [s]\<rparr>"

definition AddVideo :: "TextureSample \<Rightarrow> base \<Rightarrow> base" where
  "AddVideo s b = b\<lparr>VideoSamples := VideoSamples b @ [s]\<rparr>"

definition PopAudio :: "base \<Rightarrow> base" where
  "PopAudio b = b\<lparr>AudioSamples := (case AudioSamples b of [] \<Rightarrow> [] | x # xs \<Rightarrow> xs)\<rparr>"

definition PopVideo :: "base \<Rightarrow> base" where
  "PopVideo b = b\<lparr>VideoSamples := (case VideoSamples b of [] \<Rightarrow> [] | x # xs \<Rightarrow> xs)\<rparr>"

text \<open>\<^verbatim>\<open>for (int32 i = 0; i < n; ++i) body\<close>: the body runs \<open>nat n\<close> times.\<close>

primrec repeat :: "nat \<Rightarrow> ('a \<Rightarrow> 'a) \<Rightarrow> 'a \<Rightarrow> 'a" where
  "repeat 0 f x = x"
| "repeat (Suc n) f x = repeat n f (f x)"

definition for_loop :: "int \<Rightarrow> ('a \<Rightarrow> 'a) \<Rightarrow> 'a \<Rightarrow> 'a" where
  "for_loop n f x = repeat (nat n) f x"

definition set_base :: "base \<Rightarrow> world \<Rightarrow> world" where
  "set_base b w = w\<lparr>ThePlayer := (ThePlayer w)\<lparr>Super := b\<rparr>\<rparr>"

definition get_base :: "world \<Rightarrow> base" where
  "get_base w = Super (ThePlayer w)"

definition store :: "nat \<Rightarrow> callback \<Rightarrow> world \<Rightarrow> world" where
  "store a cb w = w\<lparr>Heap := (Heap w)(a := Some cb)\<rparr>"

definition add_log :: "log_msg \<Rightarrow> world \<Rightarrow> world" where
  "add_log m w = w\<lparr>Log := Log w @ [m]\<rparr>"

definition ReceiveMediaEvent :: "EMediaEvent \<Rightarrow> world \<Rightarrow> world" where
  "ReceiveMediaEvent e w = w\<lparr>Sink := Sink w @ [e]\<rparr>"

section \<open>The callback object\<close>

text \<open>The constructor (lines 48 to 67) and \<^verbatim>\<open>Initialize\<close> (lines 69 to 83).\<close>

definition new_callback :: "FChannelInfo \<Rightarrow> callback" where
  "new_callback InChannelInfo =
     \<lparr>RefCounter = 0,
      BlackmagicIdendifier = None,
      ChannelInfo = InChannelInfo,
      MediaPlayer = True,
      MediaState = Closed,
      PreviousTimecode = \<lparr>BM_Hours = 0, BM_Minutes = 0, BM_Seconds = 0, BM_Frames = 0\<rparr>,
      PrevousTimespan = 0,
      bEncodeTimecodeInTexel = False,
      LastBitsPerSample = 0,
      LastNumChannels = 0,
      LastSampleRate = 0,
      AudioFrameDropCount = 0,
      MetadataFrameDropCount = 0,
      VideoFrameDropCount = 0,
      MaxNumAudioFrameBuffer = 0,
      MaxNumVideoFrameBuffer = 0,
      LastHasFrameTime = 0,
      bReceivedValidFrame = False,
      bIsTimecodeExpected = False,
      bHasWarnedMissingTimecode = False,
      bIsSRGBInput = False\<rparr>"

text \<open>
  \<^verbatim>\<open>Initialize\<close> takes its own reference, then registers. The local \<^verbatim>\<open>SelfRef\<close> holds one
  more reference until the method returns; what remains is the method's own reference and
  the references the capture library keeps.
\<close>

definition Initialize ::
  "ext \<Rightarrow> FInputChannelOptions \<Rightarrow> bool \<Rightarrow> int \<Rightarrow> int \<Rightarrow> bool \<Rightarrow> nat \<Rightarrow> world \<Rightarrow> error + bool \<times> world" where
  "Initialize x InChannelInfo bInEncodeTimecodeInTexel InMaxNumAudioFrameBuffer
      InMaxNumVideoFrameBuffer bInIsSRGBInput a w =
     (case Heap w a of
        None \<Rightarrow> Inl UseAfterFree
      | Some cb \<Rightarrow>
          let cb1 = cb\<lparr>RefCounter := RefCounter cb + 1,
                      bEncodeTimecodeInTexel := bInEncodeTimecodeInTexel,
                      MaxNumAudioFrameBuffer := InMaxNumAudioFrameBuffer,
                      MaxNumVideoFrameBuffer := InMaxNumVideoFrameBuffer,
                      bIsTimecodeExpected := (TimecodeFormat InChannelInfo \<noteq> TCF_None),
                      bIsSRGBInput := bInIsSRGBInput\<rparr>;
              r = RegisterCallbackForChannel x (ChannelInfo cb1) InChannelInfo;
              cb2 = cb1\<lparr>RefCounter := RefCounter cb1 + int (snd r),
                       BlackmagicIdendifier := fst r,
                       MediaState := (if fst r \<noteq> None then Preparing else Error)\<rparr>
          in Inr (fst r \<noteq> None,
                  store a cb2
                    (w\<lparr>SdkCalls := SdkCalls w @ [RegisterCallback a (ChannelInfo cb1) InChannelInfo]\<rparr>)))"

text \<open>\<^verbatim>\<open>Release\<close> (lines 147 to 154).\<close>

definition Release :: "nat \<Rightarrow> world \<Rightarrow> error + world" where
  "Release a w =
     (case Heap w a of
        None \<Rightarrow> Inl UseAfterFree
      | Some cb \<Rightarrow>
          let cb1 = cb\<lparr>RefCounter := RefCounter cb - 1\<rparr>
          in if RefCounter cb1 = 0 then Inr (w\<lparr>Heap := (Heap w)(a := None)\<rparr>)
             else Inr (store a cb1 w))"

definition AddRef :: "nat \<Rightarrow> world \<Rightarrow> error + world" where
  "AddRef a w =
     (case Heap w a of
        None \<Rightarrow> Inl UseAfterFree
      | Some cb \<Rightarrow> Inr (store a (cb\<lparr>RefCounter := RefCounter cb + 1\<rparr>) w))"

text \<open>
  \<^verbatim>\<open>Uninitialize\<close> (lines 85 to 98). The method holds a scoped lock on the member
  \<^verbatim>\<open>CallbackLock\<close> of the object, which it releases when it returns, after \<^verbatim>\<open>Release()\<close>.
  When \<^verbatim>\<open>Release()\<close> has deleted the object, releasing the lock uses freed memory: the last
  step of the model looks the object up again and fails with \<open>UseAfterFree\<close> when it is gone.
\<close>

definition Uninitialize :: "nat \<Rightarrow> world \<Rightarrow> error + world" where
  "Uninitialize a w =
     (case Heap w a of
        None \<Rightarrow> Inl UseAfterFree
      | Some cb \<Rightarrow>
          let cb1 = cb\<lparr>MediaPlayer := False\<rparr>
          in (case (case BlackmagicIdendifier cb1 of
                      Some ident \<Rightarrow>
                        Release a
                          (store a (cb1\<lparr>MediaState := Stopped, BlackmagicIdendifier := None\<rparr>)
                             (w\<lparr>SdkCalls := SdkCalls w @ [UnregisterCallback (ChannelInfo cb1) ident]\<rparr>))
                    | None \<Rightarrow> Release a (store a cb1 w)) of
                Inl e \<Rightarrow> Inl e
              | Inr w1 \<Rightarrow>
                  (case Heap w1 a of
                     None \<Rightarrow> Inl UseAfterFree
                   | Some cb2 \<Rightarrow> Inr w1)))"

definition GetMediaState :: "nat \<Rightarrow> world \<Rightarrow> error + EMediaState" where
  "GetMediaState a w =
     (case Heap w a of None \<Rightarrow> Inl UseAfterFree | Some cb \<Rightarrow> Inr (MediaState cb))"

text \<open>\<^verbatim>\<open>UpdateAudioTrackFormat\<close> (lines 102 to 107), on the track format it is given.\<close>

definition UpdateAudioTrackFormat :: "callback \<Rightarrow> FMediaAudioTrackFormat \<Rightarrow> FMediaAudioTrackFormat" where
  "UpdateAudioTrackFormat cb OutAudioTrackFormat =
     OutAudioTrackFormat\<lparr>BitsPerSample := LastBitsPerSample cb,
                         NumChannels := LastNumChannels cb,
                         SampleRate := LastSampleRate cb\<rparr>"

text \<open>
  \<^verbatim>\<open>VerifyFrameDropCount_GameThread\<close> (lines 109 to 139). The method returns nothing; the
  model also returns the final values of its two locals \<^verbatim>\<open>AudioOverflowCount\<close> and
  \<^verbatim>\<open>VideoOverflowCount\<close>, which the source writes to the log when they are positive.
\<close>

definition VerifyFrameDropCount_GameThread :: "string \<Rightarrow> nat \<Rightarrow> world \<Rightarrow> error + world \<times> int \<times> int" where
  "VerifyFrameDropCount_GameThread InUrl a w =
     (case Heap w a of
        None \<Rightarrow> Inl UseAfterFree
      | Some cb \<Rightarrow>
          if \<not> MediaPlayer cb then Inl NullPointer
          else
            let AudioOverflowCount = max (NumAudioSamples (get_base w) - MaxNumAudioFrameBuffer cb) 0;
                w1 = set_base (for_loop AudioOverflowCount PopAudio (get_base w)) w;
                VideoOverflowCount = max (NumVideoSamples (get_base w1) - MaxNumVideoFrameBuffer cb) 0;
                w2 = set_base (for_loop VideoOverflowCount PopVideo (get_base w1)) w1
            in if bVerifyFrameDropCount (ThePlayer w2) then
                 let AudioOverflowCount2 = AudioOverflowCount + AudioFrameDropCount cb;
                     cb1 = cb\<lparr>AudioFrameDropCount := 0\<rparr>;
                     w3 = (if AudioOverflowCount2 > 0
                           then add_log (LostAudioFrames AudioOverflowCount2 InUrl) w2 else w2);
                     VideoOverflowCount2 = VideoOverflowCount + VideoFrameDropCount cb1;
                     cb2 = cb1\<lparr>VideoFrameDropCount := 0\<rparr>;
                     w4 = (if VideoOverflowCount2 > 0
                           then add_log (LostVideoFrames VideoOverflowCount2 InUrl) w3 else w3)
                 in Inr (store a cb2 w4, AudioOverflowCount2, VideoOverflowCount2)
               else Inr (w2, AudioOverflowCount, VideoOverflowCount))"

text \<open>The short event handlers (lines 156 to 164 and 365 to 374).\<close>

definition OnInitializationCompleted :: "bool \<Rightarrow> nat \<Rightarrow> world \<Rightarrow> error + world" where
  "OnInitializationCompleted bSuccess a w =
     (case Heap w a of
        None \<Rightarrow> Inl UseAfterFree
      | Some cb \<Rightarrow> Inr (store a (cb\<lparr>MediaState := (if bSuccess then Playing else Error)\<rparr>) w))"

definition OnShutdownCompleted :: "nat \<Rightarrow> world \<Rightarrow> error + world" where
  "OnShutdownCompleted a w =
     (case Heap w a of
        None \<Rightarrow> Inl UseAfterFree
      | Some cb \<Rightarrow> Inr (store a (cb\<lparr>MediaState := Closed\<rparr>) w))"

definition OnFrameFormatChanged :: "nat \<Rightarrow> world \<Rightarrow> error + world" where
  "OnFrameFormatChanged a w =
     (case Heap w a of
        None \<Rightarrow> Inl UseAfterFree
      | Some cb \<Rightarrow>
          Inr (store a (cb\<lparr>MediaState := Error\<rparr>)
                 (add_log (VideoFormatChanged
                    (if MediaPlayer cb then Some (OpenUrl (get_base w)) else None)) w)))"

definition OnInterlacedOddFieldEvent :: "nat \<Rightarrow> world \<Rightarrow> error + world" where
  "OnInterlacedOddFieldEvent a w =
     (case Heap w a of None \<Rightarrow> Inl UseAfterFree | Some cb \<Rightarrow> Inr w)"

section \<open>OnFrameReceived\<close>

text \<open>
  \<^verbatim>\<open>OnFrameReceived\<close> (lines 166 to 363) is one method in the source. The model cuts it at
  its blocks: the no-signal branch, the timecode block, the audio block and the video block,
  each a function of the callback's fields and the state, and puts them together in
  \<open>OnFrameReceived\<close> below.
\<close>

text \<open>
  Lines 177 to 191: no input source and no audio payload. The literals \<^verbatim>\<open>0.1\<close> and
  \<^verbatim>\<open>2.0\<close> of the source are the real numbers \<open>1 / 10\<close> and \<open>2\<close>.
\<close>

definition NoSignal :: "clock \<Rightarrow> callback \<Rightarrow> world \<Rightarrow> callback \<times> world" where
  "NoSignal c cb w =
     (let TimeAllowedToConnect = 2;
          cb1 = (if LastHasFrameTime cb < 1 / 10 then cb\<lparr>LastHasFrameTime := CurrentTime c\<rparr> else cb)
      in if bReceivedValidFrame cb1 \<or> CurrentTime c - LastHasFrameTime cb1 > TimeAllowedToConnect
         then (cb1\<lparr>MediaState := Error\<rparr>, add_log (NoVideoInput (OpenUrl (get_base w))) w)
         else (cb1, w))"

text \<open>The locals that the timecode block leaves for the audio and video blocks.\<close>

record decoded =
  DecodedTime :: int
  DecodedTimeF2 :: int
  DecodedTimecode :: "FTimecode option"
  DecodedTimecodeF2 :: "FTimecode option"

text \<open>Lines 194 to 235, from the two presentation times to the end of the timecode block.\<close>

definition DecodeTimecode ::
  "ext \<Rightarrow> clock \<Rightarrow> FFrameReceivedInfo \<Rightarrow> callback \<Rightarrow> world \<Rightarrow> decoded \<times> callback \<times> world" where
  "DecodeTimecode x c InFrameInfo cb w =
     (let rate = VideoFrameRate (get_base w);
          url = OpenUrl (get_base w);
          d0 = \<lparr>DecodedTime = PlatformTime c,
                DecodedTimeF2 = PlatformTime c + IntervalTicks x rate,
                DecodedTimecode = None,
                DecodedTimecodeF2 = None\<rparr>
      in if bHaveTimecode InFrameInfo then
           let tc = Timecode InFrameInfo;
               FrameLimit = (if FieldDominance InFrameInfo \<noteq> Interlaced
                             then RoundedDecimal x rate else RoundedDecimal x rate - 1);
               w1 = (if int32_of_uint32 (BM_Frames tc) \<ge> FrameLimit
                     then add_log (InvalidTimecodeFrame url (BM_Frames tc) rate) w else w);
               t1 = \<lparr>Hours = int32_of_uint32 (BM_Hours tc),
                     Minutes = int32_of_uint32 (BM_Minutes tc),
                     Seconds = int32_of_uint32 (BM_Seconds tc),
                     Frames = int32_of_uint32 (BM_Frames tc),
                     bDropFrameFormat = IsDropFormatTimecodeSupported x rate\<rparr>;
               t2 = t1\<lparr>Frames := Frames t1 + 1\<rparr>;
               TimecodeDecodedTime = ToTimespan x t1 rate;
               d1 = d0\<lparr>DecodedTimecode := Some t1, DecodedTimecodeF2 := Some t2\<rparr>;
               d2 = (if bUseTimeSynchronization (get_base w)
                     then d1\<lparr>DecodedTime := TimecodeDecodedTime,
                             DecodedTimeF2 := TimecodeDecodedTime + IntervalTicks x rate\<rparr>
                     else d1);
               cb1 = cb\<lparr>PreviousTimecode := tc, PrevousTimespan := TimecodeDecodedTime\<rparr>;
               w2 = (if bIsTimecodeLogEnable (get_base w)
                     then add_log (HasTimecode url (BM_Hours tc) (BM_Minutes tc) (BM_Seconds tc) (BM_Frames tc)) w1
                     else w1)
           in (d2, cb1, w2)
         else if \<not> bHasWarnedMissingTimecode cb \<and> bIsTimecodeExpected cb then
           (d0, cb\<lparr>bHasWarnedMissingTimecode := True\<rparr>, add_log (MissingTimecode url) w)
         else (d0, cb, w))"

text \<open>Lines 237 to 263: the audio buffer.\<close>

definition ProcessAudio ::
  "ext \<Rightarrow> FFrameReceivedInfo \<Rightarrow> decoded \<Rightarrow> callback \<Rightarrow> world \<Rightarrow> callback \<times> world" where
  "ProcessAudio x InFrameInfo d cb w =
     (case AudioBuffer InFrameInfo of
        None \<Rightarrow> (cb, w)
      | Some buf \<Rightarrow>
          if NumAudioSamples (get_base w) \<ge> int32_mul (MaxNumAudioFrameBuffer cb) ToleratedExtraMaxBufferCount
          then
            (if bVerifyFrameDropCount (ThePlayer w)
             then (cb\<lparr>AudioFrameDropCount := AudioFrameDropCount cb + 1\<rparr>, w)
             else (cb, w))
          else
            let w1 = w\<lparr>ThePlayer := (ThePlayer w)\<lparr>AudioSamplePool := AcquireShared x (AudioSamplePool (ThePlayer w))\<rparr>\<rparr>;
                AudioSample = \<lparr>AS_Buffer = buf,
                               AS_NumSamples = AudioBufferSize InFrameInfo div sizeof_int32,
                               AS_NumChannels = NumberOfAudioChannel InFrameInfo,
                               AS_SampleRate = AudioRate InFrameInfo,
                               AS_Time = DecodedTime d,
                               AS_Timecode = DecodedTimecode d\<rparr>
            in if AudioInitialize x AudioSample
               then (cb\<lparr>LastBitsPerSample := sizeof_int32,
                         LastSampleRate := AudioRate InFrameInfo,
                         LastNumChannels := NumberOfAudioChannel InFrameInfo\<rparr>,
                     set_base (AddAudio AudioSample (get_base w1)) w1)
               else (cb, w1))"

text \<open>
  Lines 278 to 300: the sample format, the pixel format of the burnt timecode and the name
  of the raw file, by the pixel format of the picture; then the raw file, written once when
  the console command has set the flag.
\<close>

definition SampleFormat_of :: "EPixelFormat \<Rightarrow> EMediaTextureSampleFormat" where
  "SampleFormat_of pf = (case pf of pf_8Bits \<Rightarrow> CharUYVY | pf_10Bits \<Rightarrow> YUVv210 | pf_Other n \<Rightarrow> CharBGRA)"

definition EncodePixelFormat_of :: "EPixelFormat \<Rightarrow> EMediaIOCoreEncodePixelFormat" where
  "EncodePixelFormat_of pf =
     (case pf of pf_8Bits \<Rightarrow> Encode_CharUYVY | pf_10Bits \<Rightarrow> Encode_YUVv210 | pf_Other n \<Rightarrow> Encode_CharUYVY)"

definition OutputFilename_of :: "EPixelFormat \<Rightarrow> string" where
  "OutputFilename_of pf =
     (case pf of pf_8Bits \<Rightarrow> ''Blackmagic_Output_8_YUV_ch''
               | pf_10Bits \<Rightarrow> ''Blackmagic_Output_10_YUV_ch''
               | pf_Other n \<Rightarrow> [])"

definition WriteRawData :: "FFrameReceivedInfo \<Rightarrow> callback \<Rightarrow> world \<Rightarrow> world" where
  "WriteRawData InFrameInfo cb w =
     (if bBlackmagicWriteOutputRawDataCmdEnable w
      then w\<lparr>RawFiles := RawFiles w @
                [(OutputFilename_of (PixelFormat InFrameInfo),
                  (case PixelFormat InFrameInfo of pf_Other n \<Rightarrow> 0 | _ \<Rightarrow> DeviceIndex (ChannelInfo cb)),
                  (VideoPitch InFrameInfo * VideoHeight InFrameInfo) mod 2 ^ 32)],
             bBlackmagicWriteOutputRawDataCmdEnable := False\<rparr>
      else w)"

text \<open>One \<^verbatim>\<open>AcquireShared\<close> on the texture pool, and one conditional \<^verbatim>\<open>AddVideo\<close>.\<close>

definition AcquireTexture :: "ext \<Rightarrow> world \<Rightarrow> world" where
  "AcquireTexture x w =
     w\<lparr>ThePlayer := (ThePlayer w)\<lparr>TextureSamplePool := AcquireShared x (TextureSamplePool (ThePlayer w))\<rparr>\<rparr>"

definition AddVideoIfInitialized :: "ext \<Rightarrow> TextureSample \<Rightarrow> world \<Rightarrow> world" where
  "AddVideoIfInitialized x s w =
     (let w1 = AcquireTexture x w
      in if TextureInitialize x s then set_base (AddVideo s (get_base w1)) w1 else w1)"

definition make_TextureSample ::
  "bool option \<Rightarrow> nat \<Rightarrow> FFrameReceivedInfo \<Rightarrow> int \<Rightarrow> FFrameRate \<Rightarrow> FTimecode option \<Rightarrow> bool \<Rightarrow> TextureSample" where
  "make_TextureSample bUseEvenLine buf InFrameInfo t rate tc srgb =
     \<lparr>TS_bUseEvenLine = bUseEvenLine,
      TS_Buffer = buf,
      TS_BufferSize = (VideoPitch InFrameInfo * VideoHeight InFrameInfo) mod 2 ^ 32,
      TS_Stride = VideoPitch InFrameInfo,
      TS_Width = VideoWidth InFrameInfo,
      TS_Height = VideoHeight InFrameInfo,
      TS_SampleFormat = SampleFormat_of (PixelFormat InFrameInfo),
      TS_Time = t,
      TS_FrameRate = rate,
      TS_Timecode = tc,
      TS_bIsSRGBInput = srgb\<rparr>"

text \<open>Lines 265 to 361: the video buffer.\<close>

definition ProcessVideo ::
  "ext \<Rightarrow> FFrameReceivedInfo \<Rightarrow> decoded \<Rightarrow> callback \<Rightarrow> world \<Rightarrow> callback \<times> world" where
  "ProcessVideo x InFrameInfo d cb w =
     (case VideoBuffer InFrameInfo of
        None \<Rightarrow> (cb, w)
      | Some buf \<Rightarrow>
          let bIsProgressivePicture = (FieldDominance InFrameInfo \<noteq> Interlaced);
              NumVideoSamples' = NumVideoSamples (get_base w) + (if \<not> bIsProgressivePicture then 1 else 0)
          in if NumVideoSamples' \<ge> int32_mul (MaxNumVideoFrameBuffer cb) ToleratedExtraMaxBufferCount
             then
               (if bVerifyFrameDropCount (ThePlayer w)
                then (cb\<lparr>VideoFrameDropCount := VideoFrameDropCount cb + 1\<rparr>, w)
                else (cb, w))
             else
               let w1 = WriteRawData InFrameInfo cb w;
                   rate = VideoFrameRate (get_base w1)
               in if bIsProgressivePicture then
                    let w2 = (case DecodedTimecode d of
                                Some SetTimecode \<Rightarrow>
                                  if bEncodeTimecodeInTexel cb
                                  then w1\<lparr>TexelEncodes := TexelEncodes w1 @
                                          [(EncodePixelFormat_of (PixelFormat InFrameInfo), buf, SetTimecode)]\<rparr>
                                  else w1
                              | None \<Rightarrow> w1)
                    in (cb, AddVideoIfInitialized x
                              (make_TextureSample None buf InFrameInfo (DecodedTime d) rate
                                 (DecodedTimecode d) (bIsSRGBInput cb)) w2)
                  else
                    let w2 = AddVideoIfInitialized x
                               (make_TextureSample (Some True) buf InFrameInfo (DecodedTime d) rate
                                  (DecodedTimecode d) (bIsSRGBInput cb)) w1
                    in (cb, AddVideoIfInitialized x
                              (make_TextureSample (Some False) buf InFrameInfo (DecodedTimeF2 d) rate
                                 (DecodedTimecodeF2 d) (bIsSRGBInput cb)) w2))"

text \<open>The method on the fields of one callback object, then on the object at an address.\<close>

definition FrameReceived :: "ext \<Rightarrow> clock \<Rightarrow> FFrameReceivedInfo \<Rightarrow> callback \<Rightarrow> world \<Rightarrow> callback \<times> world" where
  "FrameReceived x c InFrameInfo cb w =
     (if \<not> MediaPlayer cb then (cb, w)
      else if \<not> bHasInputSource InFrameInfo \<and> AudioBuffer InFrameInfo = None then NoSignal c cb w
      else
        let cb1 = cb\<lparr>bReceivedValidFrame := (bReceivedValidFrame cb \<or> bHasInputSource InFrameInfo)\<rparr>
        in if MediaState cb1 = Playing then
             let (d, cb2, w2) = DecodeTimecode x c InFrameInfo cb1 w;
                 (cb3, w3) = ProcessAudio x InFrameInfo d cb2 w2
             in ProcessVideo x InFrameInfo d cb3 w3
           else (cb1, w))"

definition OnFrameReceived :: "ext \<Rightarrow> clock \<Rightarrow> FFrameReceivedInfo \<Rightarrow> nat \<Rightarrow> world \<Rightarrow> error + world" where
  "OnFrameReceived x c InFrameInfo a w =
     (case Heap w a of
        None \<Rightarrow> Inl UseAfterFree
      | Some cb \<Rightarrow>
          let (cb1, w1) = FrameReceived x c InFrameInfo cb w in Inr (store a cb1 w1))"

section \<open>The player\<close>

text \<open>\<^verbatim>\<open>Close\<close> (lines 437 to 449).\<close>

definition ResetPools :: "ext \<Rightarrow> world \<Rightarrow> world" where
  "ResetPools x w =
     w\<lparr>ThePlayer := (ThePlayer w)
         \<lparr>AudioSamplePool := PoolReset x (AudioSamplePool (ThePlayer w)),
          TextureSamplePool := PoolReset x (TextureSamplePool (ThePlayer w))\<rparr>\<rparr>"

definition call_base :: "(base \<Rightarrow> base \<times> EMediaEvent list) \<Rightarrow> world \<Rightarrow> world" where
  "call_base f w = (let r = f (get_base w) in (set_base (fst r) w)\<lparr>Sink := Sink w @ snd r\<rparr>)"

definition set_EventCallback :: "nat option \<Rightarrow> world \<Rightarrow> world" where
  "set_EventCallback p w = w\<lparr>ThePlayer := (ThePlayer w)\<lparr>EventCallback := p\<rparr>\<rparr>"

definition Close :: "ext \<Rightarrow> world \<Rightarrow> error + world" where
  "Close x w =
     (case (case EventCallback (ThePlayer w) of
              Some a \<Rightarrow>
                (case Uninitialize a w of
                   Inl e \<Rightarrow> Inl e
                 | Inr w1 \<Rightarrow> Inr (set_EventCallback None w1))
            | None \<Rightarrow> Inr w) of
        Inl e \<Rightarrow> Inl e
      | Inr w1 \<Rightarrow> Inr (call_base (SuperClose x) (ResetPools x w1)))"

text \<open>\<^verbatim>\<open>Open\<close> (lines 457 to 525).\<close>

definition make_ChannelOptions :: "ext \<Rightarrow> IMediaOptions \<Rightarrow> FInputChannelOptions" where
  "make_ChannelOptions x Options =
     \<lparr>CallbackPriority = 10,
      bReadVideo = GetMediaOption (Opt_CaptureVideo Options) True,
      DisplayMode = GetMediaOption (Opt_BlackmagicVideoFormat Options) (DefaultVideoFormat x),
      OptPixelFormat =
        (if GetMediaOption (Opt_ColorFormat Options) YUV8 = YUV8 then pf_8Bits else pf_10Bits),
      TimecodeFormat =
        (case GetMediaOption (Opt_TimecodeFormat Options) MediaIO_None of
           MediaIO_LTC \<Rightarrow> TCF_LTC
         | MediaIO_VITC \<Rightarrow> TCF_VITC1
         | MediaIO_None \<Rightarrow> TCF_None
         | MediaIO_Other n \<Rightarrow> TCF_None),
      bReadAudio = GetMediaOption (Opt_CaptureAudio Options) False,
      OptNumberOfAudioChannel =
        (if GetMediaOption (Opt_AudioChannelOption Options) Stereo2 = Surround8 then 8 else 2)\<rparr>"

definition Open :: "ext \<Rightarrow> string \<Rightarrow> IMediaOptions \<Rightarrow> world \<Rightarrow> error + bool \<times> world" where
  "Open x Url Options w =
     (if \<not> IsInitialized x then Inr (False, add_log (NotInitialized Url) w)
      else if \<not> CanUseBlackmagicCard x then Inr (False, add_log (CannotUseCard Url) w)
      else
        case SuperOpen x Url Options w of
          Inl e \<Rightarrow> Inl e
        | Inr (ok, w1) \<Rightarrow>
            if \<not> ok then Inr (False, w1)
            else if EventCallback (ThePlayer w1) \<noteq> None then Inl AssertionFailed
            else
              let ChannelInfo' = \<lparr>DeviceIndex = int32_of_int64 (GetMediaOption (Opt_DeviceIndex Options) 0)\<rparr>;
                  a = NextAddr w1;
                  w2 = set_EventCallback (Some a)
                         (w1\<lparr>Heap := (Heap w1)(a := Some (new_callback ChannelInfo')),
                             NextAddr := Suc a\<rparr>);
                  ChannelOptions = make_ChannelOptions x Options;
                  bIsSRGBInput' = GetMediaOption (Opt_SRGBInput Options) True;
                  w3 = w2\<lparr>ThePlayer := (ThePlayer w2)
                            \<lparr>bVerifyFrameDropCount := GetMediaOption (Opt_LogDropFrame Options) False\<rparr>\<rparr>;
                  bEncodeTimecodeInTexel' =
                    (GetMediaOption (Opt_TimecodeFormat Options) MediaIO_None \<noteq> MediaIO_None
                     \<and> GetMediaOption (Opt_EncodeTimecodeInTexel Options) False);
                  MaxNumAudioFrameBuffer' = int32_of_int64 (GetMediaOption (Opt_MaxAudioFrameBuffer Options) 8);
                  MaxNumVideoFrameBuffer' = int32_of_int64 (GetMediaOption (Opt_MaxVideoFrameBuffer Options) 8)
              in case Initialize x ChannelOptions bEncodeTimecodeInTexel' MaxNumAudioFrameBuffer'
                        MaxNumVideoFrameBuffer' bIsSRGBInput' a w3 of
                   Inl e \<Rightarrow> Inl e
                 | Inr (bSuccess, w4) \<Rightarrow>
                     if \<not> bSuccess then
                       (case Uninitialize a w4 of
                          Inl e \<Rightarrow> Inl e
                        | Inr w5 \<Rightarrow> Inr (bSuccess, set_EventCallback None w5))
                     else Inr (bSuccess, w4))"

text \<open>\<^verbatim>\<open>TickInput\<close> (lines 528 to 555).\<close>

definition TickInput :: "ext \<Rightarrow> world \<Rightarrow> error + world" where
  "TickInput x w =
     (case (case EventCallback (ThePlayer w) of
              Some a \<Rightarrow> GetMediaState a w
            | None \<Rightarrow> Inr Closed) of
        Inl e \<Rightarrow> Inl e
      | Inr NewState \<Rightarrow>
          (case (if NewState \<noteq> CurrentState (get_base w) then
                   let w1 = set_base ((get_base w)\<lparr>CurrentState := NewState\<rparr>) w
                   in if CurrentState (get_base w1) = Playing then
                        Inr (ReceiveMediaEvent PlaybackResumed
                              (ReceiveMediaEvent MediaOpened
                                (ReceiveMediaEvent TracksChanged w1)))
                      else if NewState = Error then
                        Close x (ReceiveMediaEvent MediaOpenFailed w1)
                      else Inr w1
                 else Inr w) of
             Inl e \<Rightarrow> Inl e
           | Inr w2 \<Rightarrow>
               if CurrentState (get_base w2) \<noteq> Playing then Inr w2
               else Inr (call_base (TickTimeManagement x) w2)))"

text \<open>
  \<^verbatim>\<open>IsHardwareReady\<close>, \<^verbatim>\<open>ProcessFrame\<close>, \<^verbatim>\<open>VerifyFrameDropCount\<close> and \<^verbatim>\<open>TickFetch\<close>
  (lines 557 to 579).
\<close>

definition IsHardwareReady :: "world \<Rightarrow> error + bool" where
  "IsHardwareReady w =
     (case EventCallback (ThePlayer w) of
        None \<Rightarrow> Inr False
      | Some a \<Rightarrow>
          (case GetMediaState a w of Inl e \<Rightarrow> Inl e | Inr s \<Rightarrow> Inr (s = Playing)))"

definition ProcessFrame :: "world \<Rightarrow> error + world" where
  "ProcessFrame w =
     (case EventCallback (ThePlayer w) of
        None \<Rightarrow> Inl NullPointer
      | Some a \<Rightarrow>
          (case Heap w a of
             None \<Rightarrow> Inl UseAfterFree
           | Some cb \<Rightarrow>
               Inr (set_base ((get_base w)
                      \<lparr>AudioTrackFormat := UpdateAudioTrackFormat cb (AudioTrackFormat (get_base w))\<rparr>) w)))"

definition VerifyFrameDropCount :: "world \<Rightarrow> error + world" where
  "VerifyFrameDropCount w =
     (case EventCallback (ThePlayer w) of
        None \<Rightarrow> Inl NullPointer
      | Some a \<Rightarrow>
          (case VerifyFrameDropCount_GameThread (OpenUrl (get_base w)) a w of
             Inl e \<Rightarrow> Inl e
           | Inr r \<Rightarrow> Inr (fst r)))"

definition TickFetch :: "world \<Rightarrow> error + world" where
  "TickFetch w =
     (case IsHardwareReady w of
        Inl e \<Rightarrow> Inl e
      | Inr ready \<Rightarrow>
          if ready then
            (case ProcessFrame w of Inl e \<Rightarrow> Inl e | Inr w1 \<Rightarrow> VerifyFrameDropCount w1)
          else Inr w)"

section \<open>Runs\<close>

text \<open>A sequence of frame events delivered to the callback object at one address.\<close>

fun run_frames :: "ext \<Rightarrow> nat \<Rightarrow> (clock \<times> FFrameReceivedInfo) list \<Rightarrow> world \<Rightarrow> error + world" where
  "run_frames x a [] w = Inr w"
| "run_frames x a (e # es) w =
     (case OnFrameReceived x (fst e) (snd e) a w of
        Inl err \<Rightarrow> Inl err
      | Inr w1 \<Rightarrow> run_frames x a es w1)"

text \<open>
  One step of the whole system: an event that the capture library delivers to the callback
  object at an address, or an operation of the consumer on the player.
\<close>

datatype operation =
  Ev_InitializationCompleted bool nat
  | Ev_ShutdownCompleted nat
  | Ev_FrameReceived clock FFrameReceivedInfo nat
  | Ev_FrameFormatChanged nat
  | Ev_InterlacedOddField nat
  | Ev_AddRef nat
  | Ev_Release nat
  | Op_Open string IMediaOptions
  | Op_Close
  | Op_TickInput
  | Op_TickFetch

fun perform :: "ext \<Rightarrow> operation \<Rightarrow> world \<Rightarrow> error + world" where
  "perform x (Ev_InitializationCompleted b a) w = OnInitializationCompleted b a w"
| "perform x (Ev_ShutdownCompleted a) w = OnShutdownCompleted a w"
| "perform x (Ev_FrameReceived c i a) w = OnFrameReceived x c i a w"
| "perform x (Ev_FrameFormatChanged a) w = OnFrameFormatChanged a w"
| "perform x (Ev_InterlacedOddField a) w = OnInterlacedOddFieldEvent a w"
| "perform x (Ev_AddRef a) w = AddRef a w"
| "perform x (Ev_Release a) w = Release a w"
| "perform x (Op_Open u opts) w =
     (case Open x u opts w of Inl e \<Rightarrow> Inl e | Inr r \<Rightarrow> Inr (snd r))"
| "perform x Op_Close w = Close x w"
| "perform x Op_TickInput w = TickInput x w"
| "perform x Op_TickFetch w = TickFetch w"

section \<open>Definitions for the statements\<close>

text \<open>What \<^verbatim>\<open>Uninitialize\<close> leaves of a callback object, and the call it makes to unregister.\<close>

definition Uninitialized :: "callback \<Rightarrow> callback" where
  "Uninitialized cb =
     cb\<lparr>MediaPlayer := False,
        MediaState := (if BlackmagicIdendifier cb \<noteq> None then Stopped else MediaState cb),
        BlackmagicIdendifier := None,
        RefCounter := RefCounter cb - 1\<rparr>"

definition Unregistration :: "callback \<Rightarrow> sdk_call list" where
  "Unregistration cb =
     (case BlackmagicIdendifier cb of
        Some ident \<Rightarrow> [UnregisterCallback (ChannelInfo cb) ident]
      | None \<Rightarrow> [])"

text \<open>
  The number of samples that the maintenance step \<^verbatim>\<open>VerifyFrameDropCount_GameThread\<close> pops
  from a queue: the first value of its local \<^verbatim>\<open>AudioOverflowCount\<close> (\<^verbatim>\<open>VideoOverflowCount\<close>).
\<close>

definition AudioOverflow :: "callback \<Rightarrow> world \<Rightarrow> int" where
  "AudioOverflow cb w = max (NumAudioSamples (get_base w) - MaxNumAudioFrameBuffer cb) 0"

definition VideoOverflow :: "callback \<Rightarrow> world \<Rightarrow> int" where
  "VideoOverflow cb w = max (NumVideoSamples (get_base w) - MaxNumVideoFrameBuffer cb) 0"

text \<open>The callback object at an address is in the state \<open>Playing\<close>.\<close>

abbreviation Playing_at :: "nat \<Rightarrow> world \<Rightarrow> bool" where
  "Playing_at b w \<equiv> (\<exists>cb. Heap w b = Some cb \<and> MediaState cb = Playing)"

subsection \<open>Example data\<close>

text \<open>
  A capture at 25 frames per second: external collaborators that always succeed, a callback
  object that is registered and playing, with maxima 1 (audio) and 2 (video), and a frame
  with audio, interlaced video and a timecode.
\<close>

definition example_ext :: ext where
  "example_ext =
     \<lparr>IsInitialized = True,
      CanUseBlackmagicCard = True,
      DefaultVideoFormat = 0,
      SuperOpen = (\<lambda>u opts w. Inr (True, w)),
      SuperClose = (\<lambda>b. (b\<lparr>CurrentState := Closed, AudioSamples := [], VideoSamples := []\<rparr>, [])),
      TickTimeManagement = (\<lambda>b. (b, [])),
      RegisterCallbackForChannel = (\<lambda>ci co. (Some 7, 1)),
      PoolReset = (\<lambda>p. 0),
      AcquireShared = Suc,
      AudioInitialize = (\<lambda>s. True),
      TextureInitialize = (\<lambda>s. True),
      IntervalTicks = (\<lambda>r. 400000),
      RoundedDecimal = (\<lambda>r. 25),
      IsDropFormatTimecodeSupported = (\<lambda>r. False),
      ToTimespan = (\<lambda>t r. (((Hours t * 60 + Minutes t) * 60 + Seconds t) * 25 + Frames t) * 400000)\<rparr>"

definition example_callback :: callback where
  "example_callback =
     (new_callback \<lparr>DeviceIndex = 0\<rparr>)
       \<lparr>RefCounter := 2,
        BlackmagicIdendifier := Some 7,
        MediaState := Playing,
        MaxNumAudioFrameBuffer := 1,
        MaxNumVideoFrameBuffer := 2\<rparr>"

definition example_base :: base where
  "example_base =
     \<lparr>CurrentState = Playing,
      OpenUrl = ''blackmagic://device0'',
      VideoFrameRate = \<lparr>Numerator = 25, Denominator = 1\<rparr>,
      bUseTimeSynchronization = False,
      bIsTimecodeLogEnable = False,
      AudioTrackFormat = \<lparr>BitsPerSample = 0, NumChannels = 0, SampleRate = 0\<rparr>,
      AudioSamples = [],
      VideoSamples = []\<rparr>"

definition example_world :: world where
  "example_world =
     \<lparr>Heap = (\<lambda>a. if a = 0 then Some example_callback else None),
      NextAddr = 1,
      ThePlayer = \<lparr>Super = example_base, EventCallback = Some 0, AudioSamplePool = 0,
                    TextureSamplePool = 0, bVerifyFrameDropCount = True\<rparr>,
      Log = [],
      Sink = [],
      SdkCalls = [],
      bBlackmagicWriteOutputRawDataCmdEnable = False,
      RawFiles = [],
      TexelEncodes = []\<rparr>"

definition example_frame :: FFrameReceivedInfo where
  "example_frame =
     \<lparr>bHasInputSource = True,
      AudioBuffer = Some 100,
      AudioBufferSize = 1920,
      NumberOfAudioChannel = 2,
      AudioRate = 48000,
      VideoBuffer = Some 200,
      VideoPitch = 3840,
      VideoWidth = 1920,
      VideoHeight = 1080,
      PixelFormat = pf_8Bits,
      FieldDominance = Interlaced,
      bHaveTimecode = True,
      Timecode = \<lparr>BM_Hours = 1, BM_Minutes = 2, BM_Seconds = 3, BM_Frames = 4\<rparr>\<rparr>"

definition example_no_signal :: FFrameReceivedInfo where
  "example_no_signal = example_frame\<lparr>bHasInputSource := False, AudioBuffer := None\<rparr>"

definition at_time :: "real \<Rightarrow> clock" where
  "at_time t = \<lparr>CurrentTime = t, PlatformTime = 0\<rparr>"

definition with_callback :: "callback \<Rightarrow> world" where
  "with_callback cb = example_world\<lparr>Heap := (\<lambda>a. if a = 0 then Some cb else None)\<rparr>"

definition negative_max_callback :: callback where
  "negative_max_callback = example_callback\<lparr>MaxNumAudioFrameBuffer := - 1\<rparr>"

definition dropping_callback :: callback where
  "dropping_callback = example_callback\<lparr>AudioFrameDropCount := 3, VideoFrameDropCount := 1\<rparr>"

definition big_max_callback :: callback where
  "big_max_callback = example_callback\<lparr>MaxNumAudioFrameBuffer := 2 ^ 30\<rparr>"

definition audio_frame :: FFrameReceivedInfo where
  "audio_frame = example_frame\<lparr>VideoBuffer := None, bHaveTimecode := False\<rparr>"

definition big_video_max_callback :: callback where
  "big_video_max_callback = example_callback\<lparr>MaxNumVideoFrameBuffer := 2 ^ 30\<rparr>"

definition video_frame :: FFrameReceivedInfo where
  "video_frame = example_frame\<lparr>AudioBuffer := None, bHaveTimecode := False\<rparr>"

definition valid_frame :: FFrameReceivedInfo where
  "valid_frame = example_frame\<lparr>AudioBuffer := None, VideoBuffer := None, bHaveTimecode := False\<rparr>"

definition detached_world :: world where
  "detached_world =
     (with_callback (Uninitialized (example_callback\<lparr>bReceivedValidFrame := True\<rparr>)))
       \<lparr>SdkCalls := [UnregisterCallback \<lparr>DeviceIndex = 0\<rparr> 7]\<rparr>"

definition last_reference_callback :: callback where
  "last_reference_callback = example_callback\<lparr>RefCounter := 1\<rparr>"

definition failed_callback :: callback where
  "failed_callback = example_callback\<lparr>RefCounter := 1, MediaState := Error\<rparr>"

section \<open>Lemmas\<close>

lemma NoSignal_Heap: "NoSignal c cb w = (cb', w') \<Longrightarrow> Heap w' = Heap w"
  by (auto simp: NoSignal_def Let_def add_log_def split: if_splits)

lemma NoSignal_state:
  "NoSignal c cb w = (cb', w') \<Longrightarrow> MediaState cb' = MediaState cb \<or> MediaState cb' = Error"
  by (auto simp: NoSignal_def Let_def split: if_splits)

lemma DecodeTimecode_Heap:
  "DecodeTimecode x c i cb w = (d, cb', w') \<Longrightarrow> Heap w' = Heap w \<and> MediaState cb' = MediaState cb"
  by (auto simp: DecodeTimecode_def Let_def add_log_def split: if_splits)

lemma ProcessAudio_Heap:
  "ProcessAudio x i d cb w = (cb', w') \<Longrightarrow> Heap w' = Heap w \<and> MediaState cb' = MediaState cb"
  by (auto simp: ProcessAudio_def Let_def set_base_def split: if_splits option.splits)

lemma AddVideoIfInitialized_Heap: "Heap (AddVideoIfInitialized x s w) = Heap w"
  by (simp add: AddVideoIfInitialized_def AcquireTexture_def Let_def set_base_def)

lemma WriteRawData_Heap: "Heap (WriteRawData i cb w) = Heap w"
  by (simp add: WriteRawData_def)

lemma ProcessVideo_Heap:
  "ProcessVideo x i d cb w = (cb', w') \<Longrightarrow> Heap w' = Heap w \<and> MediaState cb' = MediaState cb"
  by (auto simp: ProcessVideo_def Let_def AddVideoIfInitialized_Heap WriteRawData_Heap
      split: if_splits option.splits)

lemma FrameReceived_Heap:
  assumes "FrameReceived x c i cb w = (cb', w')"
  shows "Heap w' = Heap w \<and> (MediaState cb' = MediaState cb \<or> MediaState cb' = Error)"
proof (cases "\<not> MediaPlayer cb")
  case True
  with assms show ?thesis by (simp add: FrameReceived_def)
next
  case attached: False
  show ?thesis
  proof (cases "\<not> bHasInputSource i \<and> AudioBuffer i = None")
    case True
    with attached assms have "NoSignal c cb w = (cb', w')" by (simp add: FrameReceived_def)
    then show ?thesis using NoSignal_Heap NoSignal_state by blast
  next
    case False
    define cb1 where "cb1 = cb\<lparr>bReceivedValidFrame := (bReceivedValidFrame cb \<or> bHasInputSource i)\<rparr>"
    have st1: "MediaState cb1 = MediaState cb" by (simp add: cb1_def)
    show ?thesis
    proof (cases "MediaState cb = Playing")
      case True
      obtain d cb2 w2 where dt: "DecodeTimecode x c i cb1 w = (d, cb2, w2)"
        by (metis prod_cases3)
      obtain cb3 w3 where pa: "ProcessAudio x i d cb2 w2 = (cb3, w3)"
        by (metis surj_pair)
      have pv: "ProcessVideo x i d cb3 w3 = (cb', w')"
        using assms attached False True dt pa
        by (simp add: FrameReceived_def Let_def cb1_def[symmetric] st1)
      show ?thesis
        using DecodeTimecode_Heap[OF dt] ProcessAudio_Heap[OF pa] ProcessVideo_Heap[OF pv] st1
        by simp
    next
      case np: False
      with assms attached False have "cb' = cb1 \<and> w' = w"
        by (auto simp: FrameReceived_def Let_def cb1_def)
      then show ?thesis using st1 by simp
    qed
  qed
qed

lemma OnFrameReceived_state:
  assumes "OnFrameReceived x c i a w = Inr w'" and "Heap w' b = Some cb'"
  shows "\<exists>cb. Heap w b = Some cb \<and>
           (MediaState cb' = MediaState cb \<or> (b = a \<and> MediaState cb' = Error))"
proof -
  from assms(1) obtain cb where h: "Heap w a = Some cb"
    by (auto simp: OnFrameReceived_def split: option.splits)
  obtain cb1 w1 where fr: "FrameReceived x c i cb w = (cb1, w1)" by (metis surj_pair)
  from assms(1) h fr have w': "w' = store a cb1 w1" by (simp add: OnFrameReceived_def)
  from FrameReceived_Heap[OF fr] have hp: "Heap w1 = Heap w"
    and st: "MediaState cb1 = MediaState cb \<or> MediaState cb1 = Error" by auto
  show ?thesis
  proof (cases "b = a")
    case True
    with assms(2) w' have "cb' = cb1" by (simp add: store_def)
    with True h st show ?thesis by auto
  next
    case False
    with assms(2) w' hp have "Heap w b = Some cb'" by (simp add: store_def)
    then show ?thesis by auto
  qed
qed

lemma Release_state:
  assumes "Release a w = Inr w'" and "Heap w' b = Some cb'"
  shows "\<exists>cb. Heap w b = Some cb \<and> MediaState cb' = MediaState cb"
  using assms
  by (auto simp: Release_def store_def Let_def split: option.splits if_splits)

lemma Release_Heap_other:
  assumes "Release a w = Inr w'"
  shows "ThePlayer w' = ThePlayer w \<and> SdkCalls w' = SdkCalls w \<and> Sink w' = Sink w \<and> Log w' = Log w"
  using assms
  by (auto simp: Release_def store_def Let_def split: option.splits if_splits)

lemma Uninitialize_state:
  assumes "Uninitialize a w = Inr w'" and "Heap w' b = Some cb'"
  shows "\<exists>cb. Heap w b = Some cb \<and> (MediaState cb' = MediaState cb \<or> MediaState cb' = Stopped)"
  using assms
  by (auto simp: Uninitialize_def Release_def store_def Let_def split: option.splits if_splits)

lemma Close_Heap:
  assumes "Close x w = Inr w'"
  shows "(\<exists>a w1. EventCallback (ThePlayer w) = Some a \<and> Uninitialize a w = Inr w1 \<and> Heap w' = Heap w1)
         \<or> (EventCallback (ThePlayer w) = None \<and> Heap w' = Heap w)"
  using assms
  by (auto simp: Close_def call_base_def ResetPools_def set_base_def set_EventCallback_def Let_def
      split: option.splits sum.splits)

lemma Close_state:
  assumes "Close x w = Inr w'" and "Heap w' b = Some cb'"
  shows "\<exists>cb. Heap w b = Some cb \<and> (MediaState cb' = MediaState cb \<or> MediaState cb' = Stopped)"
  using Close_Heap[OF assms(1)] assms(2) Uninitialize_state by fastforce

lemma call_base_Heap: "Heap (call_base f w) = Heap w"
  by (simp add: call_base_def set_base_def Let_def)

lemma TickInput_Heap:
  assumes "TickInput x w = Inr w'"
  shows "Heap w' = Heap w \<or>
         (\<exists>v'. Close x (ReceiveMediaEvent MediaOpenFailed
                  (set_base ((get_base w)\<lparr>CurrentState := Error\<rparr>) w)) = Inr v' \<and> Heap w' = Heap v')"
  using assms
  by (auto simp: TickInput_def Let_def call_base_Heap ReceiveMediaEvent_def set_base_def
      split: option.splits sum.splits if_splits)

lemma TickInput_state:
  assumes "TickInput x w = Inr w'" and "Heap w' b = Some cb'"
  shows "\<exists>cb. Heap w b = Some cb \<and> (MediaState cb' = MediaState cb \<or> MediaState cb' = Stopped)"
  using TickInput_Heap[OF assms(1)]
proof
  assume "Heap w' = Heap w"
  with assms(2) show ?thesis by simp
next
  assume "\<exists>v'. Close x (ReceiveMediaEvent MediaOpenFailed
                  (set_base ((get_base w)\<lparr>CurrentState := Error\<rparr>) w)) = Inr v' \<and> Heap w' = Heap v'"
  then obtain v' where v: "Close x (ReceiveMediaEvent MediaOpenFailed
                  (set_base ((get_base w)\<lparr>CurrentState := Error\<rparr>) w)) = Inr v'" "Heap w' = Heap v'"
    by blast
  from assms(2) v(2) have "Heap v' b = Some cb'" by simp
  from Close_state[OF v(1) this] show ?thesis
    by (simp add: ReceiveMediaEvent_def set_base_def)
qed

lemma VerifyFrameDropCount_GameThread_state:
  assumes "VerifyFrameDropCount_GameThread u a w = Inr (w', na, nv)" and "Heap w' b = Some cb'"
  shows "\<exists>cb. Heap w b = Some cb \<and> MediaState cb' = MediaState cb"
  using assms
  by (auto simp: VerifyFrameDropCount_GameThread_def Let_def store_def set_base_def add_log_def
      split: option.splits if_splits)

lemma TickFetch_state:
  assumes "TickFetch w = Inr w'" and "Heap w' b = Some cb'"
  shows "\<exists>cb. Heap w b = Some cb \<and> MediaState cb' = MediaState cb"
proof (cases "IsHardwareReady w = Inr True")
  case False
  with assms show ?thesis by (auto simp: TickFetch_def split: sum.splits if_splits)
next
  case True
  with assms(1) obtain w1 where pf: "ProcessFrame w = Inr w1" and vf: "VerifyFrameDropCount w1 = Inr w'"
    by (auto simp: TickFetch_def split: sum.splits)
  from pf have h1: "Heap w1 = Heap w"
    by (auto simp: ProcessFrame_def set_base_def split: option.splits)
  from vf obtain a u na nv where "VerifyFrameDropCount_GameThread u a w1 = Inr (w', na, nv)"
    by (auto simp: VerifyFrameDropCount_def split: option.splits sum.splits)
  from VerifyFrameDropCount_GameThread_state[OF this assms(2)] h1 show ?thesis by simp
qed

lemma Initialize_state:
  assumes "Initialize x co e ma mv s a w = Inr (ok, w')" and "Heap w' b = Some cb'"
  shows "(b = a \<and> (MediaState cb' = Preparing \<or> MediaState cb' = Error))
         \<or> (b \<noteq> a \<and> Heap w b = Some cb')"
  using assms
  by (auto simp: Initialize_def Let_def store_def split: option.splits if_splits)

lemma Open_state:
  assumes super: "\<And>u opts v ok v' c'. SuperOpen x u opts v = Inr (ok, v') \<Longrightarrow> Heap v' b = Some c'
                    \<Longrightarrow> MediaState c' = Playing \<Longrightarrow> Playing_at b v"
    and op: "Open x u opts w = Inr (ok, w')" and h: "Heap w' b = Some cb'" and pl: "MediaState cb' = Playing"
  shows "Playing_at b w"
proof (cases "\<not> IsInitialized x \<or> \<not> CanUseBlackmagicCard x")
  case True
  with op h pl show ?thesis by (auto simp: Open_def add_log_def split: if_splits)
next
  case ready: False
  with op obtain ok1 w1 where so: "SuperOpen x u opts w = Inr (ok1, w1)"
    by (cases "SuperOpen x u opts w") (auto simp: Open_def)
  show ?thesis
  proof (cases ok1)
    case False
    with op ready so have "w' = w1" by (simp add: Open_def)
    with super[OF so] h pl show ?thesis by simp
  next
    case True
    define a where "a = NextAddr w1"
    define w2 where "w2 = set_EventCallback (Some a)
        (w1\<lparr>Heap := (Heap w1)(a := Some (new_callback
            \<lparr>DeviceIndex = int32_of_int64 (GetMediaOption (Opt_DeviceIndex opts) 0)\<rparr>)), NextAddr := Suc a\<rparr>)"
    define w3 where "w3 = w2\<lparr>ThePlayer := (ThePlayer w2)
        \<lparr>bVerifyFrameDropCount := GetMediaOption (Opt_LogDropFrame opts) False\<rparr>\<rparr>"
    define r where "r = Initialize x (make_ChannelOptions x opts)
        (GetMediaOption (Opt_TimecodeFormat opts) MediaIO_None \<noteq> MediaIO_None
           \<and> GetMediaOption (Opt_EncodeTimecodeInTexel opts) False)
        (int32_of_int64 (GetMediaOption (Opt_MaxAudioFrameBuffer opts) 8))
        (int32_of_int64 (GetMediaOption (Opt_MaxVideoFrameBuffer opts) 8))
        (GetMediaOption (Opt_SRGBInput opts) True) a w3"
    have h3: "\<And>b. b \<noteq> a \<Longrightarrow> Heap w3 b = Heap w1 b"
      by (simp add: w3_def w2_def set_EventCallback_def)
    from op ready so True have rest:
      "(case r of Inl e \<Rightarrow> Inl e
        | Inr (bSuccess, w4) \<Rightarrow>
            if \<not> bSuccess then
              (case Uninitialize a w4 of Inl e \<Rightarrow> Inl e
               | Inr w5 \<Rightarrow> Inr (bSuccess, set_EventCallback None w5))
            else Inr (bSuccess, w4)) = Inr (ok, w')"
      unfolding r_def w3_def w2_def a_def
      by (simp add: Open_def Let_def split: if_splits)
    then obtain bS w4 where ini: "r = Inr (bS, w4)"
      by (cases r) auto
    have not4: "\<And>c4. Heap w4 b = Some c4 \<Longrightarrow> MediaState c4 = Playing \<Longrightarrow> Heap w1 b = Some c4"
      using Initialize_state[OF ini[unfolded r_def]] h3 by fastforce
    have "\<exists>c4. Heap w4 b = Some c4 \<and> MediaState c4 = Playing"
    proof (cases bS)
      case True
      with rest ini have "w' = w4" by simp
      with h pl show ?thesis by auto
    next
      case False
      with rest ini obtain w5 where u: "Uninitialize a w4 = Inr w5" and w': "w' = set_EventCallback None w5"
        by (cases "Uninitialize a w4") auto
      from h w' have "Heap w5 b = Some cb'" by (simp add: set_EventCallback_def)
      from Uninitialize_state[OF u this] pl show ?thesis by auto
    qed
    then obtain c4 where c4: "Heap w4 b = Some c4" "MediaState c4 = Playing" by blast
    with not4 have "Heap w1 b = Some c4" by blast
    from super[OF so this c4(2)] show ?thesis .
  qed
qed

lemma OnInitializationCompleted_state:
  assumes "OnInitializationCompleted bS a w = Inr w'" and "Heap w' b = Some cb'"
    and "MediaState cb' = Playing"
  shows "Playing_at b w \<or> (bS \<and> a = b)"
proof -
  from assms(1) obtain cb where cb: "Heap w a = Some cb"
    and w': "w' = store a (cb\<lparr>MediaState := (if bS then Playing else Error)\<rparr>) w"
    by (cases "Heap w a") (auto simp: OnInitializationCompleted_def)
  show ?thesis
  proof (cases "b = a")
    case True
    with assms(2,3) w' show ?thesis by (cases bS) (auto simp: store_def)
  next
    case False
    with assms(2,3) w' show ?thesis by (auto simp: store_def)
  qed
qed

lemma OnShutdownCompleted_state:
  assumes "OnShutdownCompleted a w = Inr w'" and "Heap w' b = Some cb'"
  shows "(b = a \<and> MediaState cb' = Closed) \<or> (b \<noteq> a \<and> Heap w b = Some cb')"
proof -
  from assms(1) obtain cb where cb: "Heap w a = Some cb"
    and w': "w' = store a (cb\<lparr>MediaState := Closed\<rparr>) w"
    by (cases "Heap w a") (auto simp: OnShutdownCompleted_def)
  with assms(2) show ?thesis by (cases "b = a") (auto simp: store_def)
qed

lemma OnFrameFormatChanged_state:
  assumes "OnFrameFormatChanged a w = Inr w'" and "Heap w' b = Some cb'"
  shows "(b = a \<and> MediaState cb' = Error) \<or> (b \<noteq> a \<and> Heap w b = Some cb')"
proof -
  from assms(1) obtain cb m where cb: "Heap w a = Some cb"
    and w': "w' = store a (cb\<lparr>MediaState := Error\<rparr>) (add_log m w)"
    by (cases "Heap w a") (auto simp: OnFrameFormatChanged_def)
  with assms(2) show ?thesis by (cases "b = a") (auto simp: store_def add_log_def)
qed

lemma OnInterlacedOddFieldEvent_state:
  assumes "OnInterlacedOddFieldEvent a w = Inr w'"
  shows "w' = w"
  using assms by (cases "Heap w a") (auto simp: OnInterlacedOddFieldEvent_def)

lemma AddRef_state:
  assumes "AddRef a w = Inr w'" and "Heap w' b = Some cb'"
  shows "\<exists>cb. Heap w b = Some cb \<and> MediaState cb' = MediaState cb"
proof -
  from assms(1) obtain cb where cb: "Heap w a = Some cb"
    and w': "w' = store a (cb\<lparr>RefCounter := RefCounter cb + 1\<rparr>) w"
    by (cases "Heap w a") (auto simp: AddRef_def)
  with assms(2) show ?thesis by (cases "b = a") (auto simp: store_def)
qed

lemma perform_Playing:
  assumes super: "\<And>u opts v ok v' c'. SuperOpen x u opts v = Inr (ok, v') \<Longrightarrow> Heap v' b = Some c'
                    \<Longrightarrow> MediaState c' = Playing \<Longrightarrow> Playing_at b v"
    and step: "perform x op w = Inr w'" and h: "Heap w' b = Some cb'" and pl: "MediaState cb' = Playing"
  shows "Playing_at b w \<or> op = Ev_InitializationCompleted True b"
proof (cases op)
  case (Ev_InitializationCompleted bS a)
  with step have "OnInitializationCompleted bS a w = Inr w'" by simp
  from OnInitializationCompleted_state[OF this h pl] Ev_InitializationCompleted show ?thesis by blast
next
  case (Ev_ShutdownCompleted a)
  with step have "OnShutdownCompleted a w = Inr w'" by simp
  from OnShutdownCompleted_state[OF this h] pl show ?thesis by auto
next
  case (Ev_FrameReceived c i a)
  with step have "OnFrameReceived x c i a w = Inr w'" by simp
  from OnFrameReceived_state[OF this h] pl show ?thesis by auto
next
  case (Ev_FrameFormatChanged a)
  with step have "OnFrameFormatChanged a w = Inr w'" by simp
  from OnFrameFormatChanged_state[OF this h] pl show ?thesis by auto
next
  case (Ev_InterlacedOddField a)
  with step have "OnInterlacedOddFieldEvent a w = Inr w'" by simp
  from OnInterlacedOddFieldEvent_state[OF this] h pl show ?thesis by auto
next
  case (Ev_AddRef a)
  with step have "AddRef a w = Inr w'" by simp
  from AddRef_state[OF this h] pl show ?thesis by auto
next
  case (Ev_Release a)
  with step have "Release a w = Inr w'" by simp
  from Release_state[OF this h] pl show ?thesis by auto
next
  case (Op_Open u opts)
  with step have "(case Open x u opts w of Inl e \<Rightarrow> Inl e | Inr r \<Rightarrow> Inr (snd r)) = Inr w'"
    by simp
  then obtain r where r: "Open x u opts w = Inr r" "snd r = w'"
    by (cases "Open x u opts w") simp_all
  then have op': "Open x u opts w = Inr (fst r, w')"
    by (cases r) simp
  have "Playing_at b w"
  proof (rule Open_state[where x = x and b = b, OF _ op' h pl])
    fix u opts v ok v' c'
    assume "SuperOpen x u opts v = Inr (ok, v')" "Heap v' b = Some c'" "MediaState c' = Playing"
    then show "Playing_at b v" by (rule super)
  qed
  then show ?thesis by blast
next
  case Op_Close
  with step have "Close x w = Inr w'" by simp
  from Close_state[OF this h] pl show ?thesis by auto
next
  case Op_TickInput
  with step have "TickInput x w = Inr w'" by simp
  from TickInput_state[OF this h] pl show ?thesis by auto
next
  case Op_TickFetch
  with step have "TickFetch w = Inr w'" by simp
  from TickFetch_state[OF this h] pl show ?thesis by auto
qed

lemma Uninitialize_effect:
  assumes "Heap w a = Some cb"
  shows "Uninitialize a w =
           (if RefCounter cb = 1 then Inl UseAfterFree
            else Inr (w\<lparr>Heap := (Heap w)(a := Some (Uninitialized cb)),
                        SdkCalls := SdkCalls w @ Unregistration cb\<rparr>))"
proof (cases "BlackmagicIdendifier cb")
  case None
  then have "cb\<lparr>BlackmagicIdendifier := None\<rparr> = cb" by (cases cb) simp
  then have "Uninitialized cb = cb\<lparr>MediaPlayer := False, RefCounter := RefCounter cb - 1\<rparr>"
    using None by (simp add: Uninitialized_def)
  with assms None show ?thesis
    by (simp add: Uninitialize_def Release_def store_def Let_def Unregistration_def)
next
  case (Some ident)
  with assms show ?thesis
    by (simp add: Uninitialize_def Release_def store_def Let_def Uninitialized_def Unregistration_def)
qed

lemma get_base_set_base: "get_base (set_base b w) = b"
  by (simp add: get_base_def set_base_def)

lemma Close_detached:
  assumes "EventCallback (ThePlayer w) = None"
  shows "Close x w = Inr (call_base (SuperClose x) (ResetPools x w))"
  using assms by (simp add: Close_def)

lemma Close_attached:
  assumes "EventCallback (ThePlayer w) = Some a" and "Heap w a = Some cb"
  shows "Close x w =
           (if RefCounter cb = 1 then Inl UseAfterFree
            else Inr (call_base (SuperClose x) (ResetPools x (set_EventCallback None
                  (w\<lparr>Heap := (Heap w)(a := Some (Uninitialized cb)),
                     SdkCalls := SdkCalls w @ Unregistration cb\<rparr>)))))"
  using assms by (simp add: Close_def Uninitialize_effect)

lemma after_Close_fields:
  "EventCallback (ThePlayer (call_base f (ResetPools x v))) = EventCallback (ThePlayer v)"
  "Heap (call_base f (ResetPools x v)) = Heap v"
  "SdkCalls (call_base f (ResetPools x v)) = SdkCalls v"
  "NextAddr (call_base f (ResetPools x v)) = NextAddr v"
  "Log (call_base f (ResetPools x v)) = Log v"
  "Sink (call_base f (ResetPools x v)) = Sink v @ snd (f (get_base v))"
  by (simp_all add: call_base_def ResetPools_def set_base_def get_base_def Let_def)

lemma Close_twice_same:
  assumes sc: "\<forall>b. SuperClose x (fst (SuperClose x b)) = (fst (SuperClose x b), [])"
    and pr: "\<forall>p. PoolReset x (PoolReset x p) = PoolReset x p"
  shows "call_base (SuperClose x) (ResetPools x (call_base (SuperClose x) (ResetPools x v)))
         = call_base (SuperClose x) (ResetPools x v)"
  using sc pr
  by (simp add: call_base_def ResetPools_def set_base_def get_base_def Let_def)

lemma Close_returns_shape:
  assumes "Close x w = Inr w1"
  shows "\<exists>v. w1 = call_base (SuperClose x) (ResetPools x v) \<and> EventCallback (ThePlayer v) = None"
proof (cases "EventCallback (ThePlayer w)")
  case None
  with assms show ?thesis using Close_detached[OF None, of x] by auto
next
  case (Some a)
  with assms obtain u where "Uninitialize a w = Inr u"
    and w1: "w1 = call_base (SuperClose x) (ResetPools x (set_EventCallback None u))"
    by (cases "Uninitialize a w") (auto simp: Close_def)
  have "EventCallback (ThePlayer (set_EventCallback None u)) = None"
    by (simp add: set_EventCallback_def)
  with w1 show ?thesis by blast
qed

text \<open>
  What holds of two calls of \<^verbatim>\<open>Close\<close> when the first returns: the second finds no callback
  object and leaves the store and the calls into the capture library alone.
\<close>

lemma Close_second_call:
  assumes "Close x w = Inr w1"
  shows "EventCallback (ThePlayer w1) = None
       \<and> (\<exists>w2. Close x w1 = Inr w2 \<and> EventCallback (ThePlayer w2) = None
              \<and> Heap w2 = Heap w1 \<and> SdkCalls w2 = SdkCalls w1
              \<and> ((\<forall>b. SuperClose x (fst (SuperClose x b)) = (fst (SuperClose x b), []))
                   \<and> (\<forall>p. PoolReset x (PoolReset x p) = PoolReset x p) \<longrightarrow> w2 = w1))"
proof -
  from Close_returns_shape[OF assms] obtain v where
    w1: "w1 = call_base (SuperClose x) (ResetPools x v)" and v: "EventCallback (ThePlayer v) = None"
    by blast
  have e1: "EventCallback (ThePlayer w1) = None" by (simp add: w1 after_Close_fields v)
  define w2 where "w2 = call_base (SuperClose x) (ResetPools x w1)"
  have c2: "Close x w1 = Inr w2" using Close_detached[OF e1] by (simp add: w2_def)
  have "EventCallback (ThePlayer w2) = None" "Heap w2 = Heap w1" "SdkCalls w2 = SdkCalls w1"
    by (simp_all add: w2_def after_Close_fields e1)
  moreover have "(\<forall>b. SuperClose x (fst (SuperClose x b)) = (fst (SuperClose x b), []))
                \<and> (\<forall>p. PoolReset x (PoolReset x p) = PoolReset x p) \<longrightarrow> w2 = w1"
    using Close_twice_same[of x v] by (simp add: w2_def w1)
  ultimately show ?thesis using c2 e1 by simp
qed

text \<open>What \<^verbatim>\<open>TickInput\<close> does when the callback object reports \<open>Playing\<close> for the first time.\<close>

lemma TickInput_Playing:
  assumes ec: "EventCallback (ThePlayer w) = Some a" and hp: "Heap w a = Some cb"
    and ch: "MediaState cb \<noteq> CurrentState (get_base w)" and pl: "MediaState cb = Playing"
  shows "\<exists>w'. TickInput x w = Inr w'
               \<and> Sink w' = Sink w @ [TracksChanged, MediaOpened, PlaybackResumed]
                              @ snd (TickTimeManagement x ((get_base w)\<lparr>CurrentState := Playing\<rparr>))
               \<and> Heap w' = Heap w \<and> EventCallback (ThePlayer w') = Some a
               \<and> SdkCalls w' = SdkCalls w"
  using assms
  by (simp add: TickInput_def GetMediaState_def Let_def ReceiveMediaEvent_def set_base_def
      get_base_def call_base_def)

text \<open>
  What \<^verbatim>\<open>TickInput\<close> does when the callback object reports \<open>Error\<close>: it runs \<^verbatim>\<open>Close\<close> on
  the state that has received \<open>MediaOpenFailed\<close>, and fails where \<^verbatim>\<open>Close\<close> fails.
\<close>

lemma TickInput_Error:
  assumes ec: "EventCallback (ThePlayer w) = Some a" and hp: "Heap w a = Some cb"
    and ch: "MediaState cb \<noteq> CurrentState (get_base w)" and er: "MediaState cb = Error"
  shows "TickInput x w =
           (case Close x (ReceiveMediaEvent MediaOpenFailed
                            (set_base ((get_base w)\<lparr>CurrentState := Error\<rparr>) w)) of
              Inl e \<Rightarrow> Inl e
            | Inr v \<Rightarrow> Inr (if CurrentState (get_base v) \<noteq> Playing then v
                             else call_base (TickTimeManagement x) v))"
  using assms
  by (simp add: TickInput_def GetMediaState_def Let_def get_base_set_base split: sum.splits)

lemma store_same: "Heap w a = Some cb \<Longrightarrow> store a cb w = w"
  by (simp add: store_def fun_upd_idem)

lemma FrameReceived_detached: "\<not> MediaPlayer cb \<Longrightarrow> FrameReceived x c i cb w = (cb, w)"
  by (simp add: FrameReceived_def)

lemma OnFrameReceived_detached:
  "Heap w a = Some cb \<Longrightarrow> \<not> MediaPlayer cb \<Longrightarrow> OnFrameReceived x c i a w = Inr w"
  by (simp add: OnFrameReceived_def FrameReceived_detached store_same)

lemma run_frames_detached:
  "Heap w a = Some cb \<Longrightarrow> \<not> MediaPlayer cb \<Longrightarrow> run_frames x a evs w = Inr w"
  by (induction evs) (simp_all add: OnFrameReceived_detached)

lemma Uninitialize_detaches:
  assumes "Uninitialize a w = Inr w1" and "Heap w1 a = Some cb1"
  shows "\<not> MediaPlayer cb1"
  using assms
  by (auto simp: Uninitialize_def Release_def store_def Let_def split: option.splits if_splits)

lemma NoSignal_fields:
  assumes "NoSignal c cb w = (cb', w')"
  shows "MediaPlayer cb' = MediaPlayer cb" "bReceivedValidFrame cb' = bReceivedValidFrame cb"
    "LastHasFrameTime cb' = (if LastHasFrameTime cb < 1 / 10 then CurrentTime c else LastHasFrameTime cb)"
    "MediaState cb' = (if bReceivedValidFrame cb \<or> CurrentTime c - LastHasFrameTime cb' > 2
                       then Error else MediaState cb)"
    "Heap w' = Heap w"
  using assms by (auto simp: NoSignal_def Let_def add_log_def split: if_splits)

lemma OnFrameReceived_no_signal:
  assumes "Heap w a = Some cb" and "MediaPlayer cb"
    and "\<not> bHasInputSource i \<and> AudioBuffer i = None"
  shows "OnFrameReceived x c i a w =
           Inr (store a (fst (NoSignal c cb w)) (snd (NoSignal c cb w)))"
  using assms by (simp add: OnFrameReceived_def FrameReceived_def split: prod.splits)

lemma run_no_signal:
  assumes "\<forall>e\<in>set evs. \<not> bHasInputSource (snd e) \<and> AudioBuffer (snd e) = None"
    and "sorted (map (\<lambda>e. CurrentTime (fst e)) evs)"
    and "\<forall>e\<in>set evs. cur \<le> CurrentTime (fst e)"
    and "Heap w a = Some cb" and "MediaPlayer cb" and "\<not> bReceivedValidFrame cb"
    and "LastHasFrameTime cb < 1 / 10 \<or> lo \<le> LastHasFrameTime cb"
    and "MediaState cb = Error \<longrightarrow> cur - lo > 2" and "lo \<le> cur"
  shows "\<exists>w' cb'. run_frames x a evs w = Inr w' \<and> Heap w' a = Some cb'
           \<and> (MediaState cb' = Error \<longrightarrow> last (cur # map (\<lambda>e. CurrentTime (fst e)) evs) - lo > 2)"
  using assms
proof (induction evs arbitrary: w cb cur)
  case Nil
  then show ?case by simp
next
  case (Cons e es)
  define t where "t = CurrentTime (fst e)"
  obtain cb1 w1 where ns: "NoSignal (fst e) cb w = (cb1, w1)" by (metis surj_pair)
  have nosig: "\<not> bHasInputSource (snd e) \<and> AudioBuffer (snd e) = None"
    using Cons.prems(1) by simp
  have step: "OnFrameReceived x (fst e) (snd e) a w = Inr (store a cb1 w1)"
    using OnFrameReceived_no_signal[OF Cons.prems(4,5) nosig] ns by simp
  have le: "cur \<le> t" using Cons.prems(3) by (simp add: t_def)
  note f = NoSignal_fields[OF ns]
  have L: "LastHasFrameTime cb1 < 1 / 10 \<or> lo \<le> LastHasFrameTime cb1"
    using f(3) Cons.prems(7,9) le by (auto simp: t_def)
  have lo1: "lo \<le> LastHasFrameTime cb1 \<or> LastHasFrameTime cb1 = t"
    using f(3) Cons.prems(7) by (auto simp: t_def)
  have E: "MediaState cb1 = Error \<longrightarrow> t - lo > 2"
  proof
    assume "MediaState cb1 = Error"
    with f(4) Cons.prems(6) have "t - LastHasFrameTime cb1 > 2 \<or> MediaState cb = Error"
      by (auto simp: t_def split: if_splits)
    then show "t - lo > 2"
    proof
      assume "t - LastHasFrameTime cb1 > 2"
      with lo1 show ?thesis by auto
    next
      assume "MediaState cb = Error"
      with Cons.prems(8) le show ?thesis by simp
    qed
  qed
  have hs: "Heap (store a cb1 w1) a = Some cb1" by (simp add: store_def)
  have rest: "\<forall>e\<in>set es. t \<le> CurrentTime (fst e)"
    using Cons.prems(2) by (auto simp: t_def)
  have "\<exists>w' cb'. run_frames x a es (store a cb1 w1) = Inr w' \<and> Heap w' a = Some cb'
           \<and> (MediaState cb' = Error \<longrightarrow> last (t # map (\<lambda>e. CurrentTime (fst e)) es) - lo > 2)"
  proof (rule Cons.IH[OF _ _ rest hs _ _ L E])
    show "\<forall>e\<in>set es. \<not> bHasInputSource (snd e) \<and> AudioBuffer (snd e) = None"
      using Cons.prems(1) by simp
    show "sorted (map (\<lambda>e. CurrentTime (fst e)) es)" using Cons.prems(2) by simp
    show "MediaPlayer cb1" using f(1) Cons.prems(5) by simp
    show "\<not> bReceivedValidFrame cb1" using f(2) Cons.prems(6) by simp
    show "lo \<le> t" using Cons.prems(9) le by simp
  qed
  then show ?case using step by (simp add: t_def)
qed

lemma DecodeTimecode_flags:
  assumes "DecodeTimecode x c i cb w = (d, cb', w')"
  shows "MediaPlayer cb' = MediaPlayer cb" and "bReceivedValidFrame cb' = bReceivedValidFrame cb"
  using assms by (auto simp: DecodeTimecode_def Let_def split: if_splits)

lemma ProcessAudio_flags:
  assumes "ProcessAudio x i d cb w = (cb', w')"
  shows "MediaPlayer cb' = MediaPlayer cb" and "bReceivedValidFrame cb' = bReceivedValidFrame cb"
  using assms by (auto simp: ProcessAudio_def Let_def split: if_splits option.splits)

lemma ProcessVideo_flags:
  assumes "ProcessVideo x i d cb w = (cb', w')"
  shows "MediaPlayer cb' = MediaPlayer cb" and "bReceivedValidFrame cb' = bReceivedValidFrame cb"
  using assms by (auto simp: ProcessVideo_def Let_def split: if_splits option.splits)

text \<open>
  Line 192: an attached callback object records a frame that reports an input source, and
  no frame event clears the record or the back-reference.
\<close>

lemma FrameReceived_flags:
  assumes fr: "FrameReceived x c i cb w = (cb', w')"
  shows "MediaPlayer cb' = MediaPlayer cb"
    and "bReceivedValidFrame cb \<Longrightarrow> bReceivedValidFrame cb'"
    and "MediaPlayer cb \<Longrightarrow> bHasInputSource i \<Longrightarrow> bReceivedValidFrame cb'"
proof -
  let ?cb1 = "cb\<lparr>bReceivedValidFrame := (bReceivedValidFrame cb \<or> bHasInputSource i)\<rparr>"
  have all: "MediaPlayer cb' = MediaPlayer cb
      \<and> (bReceivedValidFrame cb \<longrightarrow> bReceivedValidFrame cb')
      \<and> (MediaPlayer cb \<and> bHasInputSource i \<longrightarrow> bReceivedValidFrame cb')"
  proof (cases "MediaPlayer cb")
    case False
    with fr show ?thesis by (simp add: FrameReceived_def)
  next
    case at: True
    show ?thesis
    proof (cases "\<not> bHasInputSource i \<and> AudioBuffer i = None")
      case True
      with at fr have "NoSignal c cb w = (cb', w')" by (simp add: FrameReceived_def)
      from NoSignal_fields(1,2)[OF this] True show ?thesis by simp
    next
      case sig: False
      show ?thesis
      proof (cases "MediaState cb = Playing")
        case False
        with at sig fr have "cb' = ?cb1" by (auto simp: FrameReceived_def Let_def)
        then show ?thesis by auto
      next
        case True
        obtain d cb2 w2 where dt: "DecodeTimecode x c i ?cb1 w = (d, cb2, w2)"
          by (metis prod_cases3)
        obtain cb3 w3 where pa: "ProcessAudio x i d cb2 w2 = (cb3, w3)" by (metis surj_pair)
        have pv: "ProcessVideo x i d cb3 w3 = (cb', w')"
          using fr at sig True dt pa by (auto simp: FrameReceived_def Let_def)
        from DecodeTimecode_flags[OF dt] ProcessAudio_flags[OF pa] ProcessVideo_flags[OF pv]
        show ?thesis by auto
      qed
    qed
  qed
  from all show "MediaPlayer cb' = MediaPlayer cb" by blast
  from all show "bReceivedValidFrame cb'" if "bReceivedValidFrame cb" using that by blast
  from all show "bReceivedValidFrame cb'" if "MediaPlayer cb" "bHasInputSource i" using that by blast
qed

lemma OnFrameReceived_total:
  assumes "Heap w a = Some cb"
  shows "OnFrameReceived x c i a w =
           Inr (store a (fst (FrameReceived x c i cb w)) (snd (FrameReceived x c i cb w)))"
  using assms by (simp add: OnFrameReceived_def split: prod.splits)

lemma run_frames_flags:
  assumes "Heap w a = Some cb" and "MediaPlayer cb" and "bReceivedValidFrame cb"
  shows "\<exists>w' cb'. run_frames x a evs w = Inr w' \<and> Heap w' a = Some cb'
           \<and> MediaPlayer cb' \<and> bReceivedValidFrame cb'"
  using assms
proof (induction evs arbitrary: w cb)
  case Nil
  then show ?case by simp
next
  case (Cons e es)
  obtain cb1 w1 where fr: "FrameReceived x (fst e) (snd e) cb w = (cb1, w1)" by (metis surj_pair)
  have st: "OnFrameReceived x (fst e) (snd e) a w = Inr (store a cb1 w1)"
    using OnFrameReceived_total[OF Cons.prems(1)] fr by simp
  have h: "Heap (store a cb1 w1) a = Some cb1" by (simp add: store_def)
  from FrameReceived_flags(1,2)[OF fr] Cons.prems(2,3)
  have "MediaPlayer cb1" "bReceivedValidFrame cb1" by simp_all
  from Cons.IH[OF h this] st show ?case by simp
qed

lemma run_frames_append:
  "run_frames x a (es @ fs) w =
     (case run_frames x a es w of Inl e \<Rightarrow> Inl e | Inr w1 \<Rightarrow> run_frames x a fs w1)"
  by (induction es arbitrary: w) (simp_all split: sum.splits)

lemma example_Heap [simp]: "Heap example_world 0 = Some example_callback"
  by (simp add: example_world_def)

lemmas example_defs =
  example_world_def example_base_def example_callback_def new_callback_def example_ext_def
  example_frame_def example_no_signal_def at_time_def with_callback_def

lemmas frame_defs =
  OnFrameReceived_def FrameReceived_def NoSignal_def DecodeTimecode_def ProcessAudio_def
  ProcessVideo_def AddVideoIfInitialized_def AcquireTexture_def make_TextureSample_def
  WriteRawData_def store_def add_log_def get_base_def set_base_def AddAudio_def AddVideo_def
  NumAudioSamples_def NumVideoSamples_def ToleratedExtraMaxBufferCount_def sizeof_int32_def
  int32_of_uint32_def int32_mul_def SampleFormat_of_def Let_def

lemma repeat_PopAudio: "repeat n PopAudio b = b\<lparr>AudioSamples := drop n (AudioSamples b)\<rparr>"
proof (induction n arbitrary: b)
  case 0
  show ?case by simp
next
  case (Suc n)
  have p: "PopAudio b = b\<lparr>AudioSamples := drop 1 (AudioSamples b)\<rparr>"
    by (cases "AudioSamples b") (simp_all add: PopAudio_def)
  have "repeat (Suc n) PopAudio b = repeat n PopAudio (b\<lparr>AudioSamples := drop 1 (AudioSamples b)\<rparr>)"
    by (simp add: p)
  then show ?case by (simp add: Suc.IH)
qed

lemma repeat_PopVideo: "repeat n PopVideo b = b\<lparr>VideoSamples := drop n (VideoSamples b)\<rparr>"
proof (induction n arbitrary: b)
  case 0
  show ?case by simp
next
  case (Suc n)
  have p: "PopVideo b = b\<lparr>VideoSamples := drop 1 (VideoSamples b)\<rparr>"
    by (cases "VideoSamples b") (simp_all add: PopVideo_def)
  have "repeat (Suc n) PopVideo b = repeat n PopVideo (b\<lparr>VideoSamples := drop 1 (VideoSamples b)\<rparr>)"
    by (simp add: p)
  then show ?case by (simp add: Suc.IH)
qed

lemma for_loop_PopAudio: "for_loop n PopAudio b = b\<lparr>AudioSamples := drop (nat n) (AudioSamples b)\<rparr>"
  by (simp add: for_loop_def repeat_PopAudio)

lemma for_loop_PopVideo: "for_loop n PopVideo b = b\<lparr>VideoSamples := drop (nat n) (VideoSamples b)\<rparr>"
  by (simp add: for_loop_def repeat_PopVideo)

lemma Verify_total:
  assumes "Heap w a = Some cb" and "MediaPlayer cb"
  shows "\<exists>w' na nv. VerifyFrameDropCount_GameThread u a w = Inr (w', na, nv)"
  using assms by (simp add: VerifyFrameDropCount_GameThread_def Let_def)

lemma Verify_result:
  assumes v: "VerifyFrameDropCount_GameThread u a w = Inr (w', na, nv)" and hp: "Heap w a = Some cb"
  shows "MediaPlayer cb"
    and "AudioSamples (get_base w') = drop (nat (AudioOverflow cb w)) (AudioSamples (get_base w))"
    and "VideoSamples (get_base w') = drop (nat (VideoOverflow cb w)) (VideoSamples (get_base w))"
    and "bVerifyFrameDropCount (ThePlayer w') = bVerifyFrameDropCount (ThePlayer w)"
    and "na = AudioOverflow cb w + (if bVerifyFrameDropCount (ThePlayer w) then AudioFrameDropCount cb else 0)"
    and "nv = VideoOverflow cb w + (if bVerifyFrameDropCount (ThePlayer w) then VideoFrameDropCount cb else 0)"
    and "Heap w' a = Some (if bVerifyFrameDropCount (ThePlayer w)
                           then cb\<lparr>AudioFrameDropCount := 0, VideoFrameDropCount := 0\<rparr> else cb)"
  using v hp
  by (auto simp: VerifyFrameDropCount_GameThread_def Let_def for_loop_PopAudio for_loop_PopVideo
      set_base_def get_base_def NumAudioSamples_def NumVideoSamples_def AudioOverflow_def
      VideoOverflow_def store_def add_log_def split: if_splits)

lemma trimmed_length:
  assumes "0 \<le> (m::int)"
  shows "int (length (drop (nat (max (int (length xs) - m) 0)) xs)) \<le> m"
  using assms by simp

lemma NoSignal_queues:
  assumes "NoSignal c cb w = (cb', w')"
  shows "get_base w' = get_base w"
    and "AudioFrameDropCount cb' = AudioFrameDropCount cb"
    and "VideoFrameDropCount cb' = VideoFrameDropCount cb"
    and "MaxNumAudioFrameBuffer cb' = MaxNumAudioFrameBuffer cb"
    and "MaxNumVideoFrameBuffer cb' = MaxNumVideoFrameBuffer cb"
  using assms by (auto simp: NoSignal_def Let_def add_log_def get_base_def split: if_splits)

lemma DecodeTimecode_props:
  assumes "DecodeTimecode x c i cb w = (d, cb', w')"
  shows "ThePlayer w' = ThePlayer w"
    and "bBlackmagicWriteOutputRawDataCmdEnable w' = bBlackmagicWriteOutputRawDataCmdEnable w"
    and "AudioFrameDropCount cb' = AudioFrameDropCount cb"
    and "VideoFrameDropCount cb' = VideoFrameDropCount cb"
    and "MaxNumAudioFrameBuffer cb' = MaxNumAudioFrameBuffer cb"
    and "MaxNumVideoFrameBuffer cb' = MaxNumVideoFrameBuffer cb"
    and "DecodedTimeF2 d = DecodedTime d + IntervalTicks x (VideoFrameRate (get_base w))"
    and "bHaveTimecode i \<Longrightarrow>
           \<exists>t. DecodedTimecode d = Some t \<and> DecodedTimecodeF2 d = Some (t\<lparr>Frames := Frames t + 1\<rparr>)"
    and "\<not> bHaveTimecode i \<Longrightarrow> DecodedTimecode d = None \<and> DecodedTimecodeF2 d = None"
  using assms
  by (auto simp: DecodeTimecode_def Let_def add_log_def get_base_def split: if_splits)

lemma ProcessAudio_props:
  assumes "ProcessAudio x i d cb w = (cb', w')"
  shows "VideoSamples (get_base w') = VideoSamples (get_base w)"
    and "VideoFrameRate (get_base w') = VideoFrameRate (get_base w)"
    and "bVerifyFrameDropCount (ThePlayer w') = bVerifyFrameDropCount (ThePlayer w)"
    and "VideoFrameDropCount cb' = VideoFrameDropCount cb"
    and "MaxNumAudioFrameBuffer cb' = MaxNumAudioFrameBuffer cb"
    and "MaxNumVideoFrameBuffer cb' = MaxNumVideoFrameBuffer cb"
    and "AudioFrameDropCount cb' \<noteq> AudioFrameDropCount cb \<Longrightarrow>
           AudioFrameDropCount cb' = AudioFrameDropCount cb + 1
           \<and> NumAudioSamples (get_base w)
               \<ge> int32_mul (MaxNumAudioFrameBuffer cb) ToleratedExtraMaxBufferCount
           \<and> w' = w"
  using assms
  by (auto simp: ProcessAudio_def Let_def set_base_def get_base_def AddAudio_def
      split: if_splits option.splits)

lemma AddVideoIfInitialized_props:
  "AudioSamples (get_base (AddVideoIfInitialized x s w)) = AudioSamples (get_base w)"
  "VideoFrameRate (get_base (AddVideoIfInitialized x s w)) = VideoFrameRate (get_base w)"
  "VideoSamples (get_base (AddVideoIfInitialized x s w)) =
     VideoSamples (get_base w) @ (if TextureInitialize x s then [s] else [])"
  by (simp_all add: AddVideoIfInitialized_def AcquireTexture_def Let_def set_base_def get_base_def
      AddVideo_def)

lemma WriteRawData_base: "get_base (WriteRawData i cb w) = get_base w"
  by (simp add: WriteRawData_def get_base_def)

lemma ProcessVideo_props:
  assumes "ProcessVideo x i d cb w = (cb', w')"
  shows "AudioSamples (get_base w') = AudioSamples (get_base w)"
    and "AudioFrameDropCount cb' = AudioFrameDropCount cb"
    and "MaxNumAudioFrameBuffer cb' = MaxNumAudioFrameBuffer cb"
    and "MaxNumVideoFrameBuffer cb' = MaxNumVideoFrameBuffer cb"
    and "VideoFrameDropCount cb' \<noteq> VideoFrameDropCount cb \<Longrightarrow>
           VideoFrameDropCount cb' = VideoFrameDropCount cb + 1
           \<and> NumVideoSamples (get_base w) + (if FieldDominance i = Interlaced then 1 else 0)
               \<ge> int32_mul (MaxNumVideoFrameBuffer cb) ToleratedExtraMaxBufferCount
           \<and> w' = w"
proof -
  have tex: "get_base (w1\<lparr>TexelEncodes := te\<rparr>) = get_base w1" for w1 te
    by (simp add: get_base_def)
  show "AudioSamples (get_base w') = AudioSamples (get_base w)"
    using assms
    by (auto simp: ProcessVideo_def Let_def AddVideoIfInitialized_props WriteRawData_base tex
        split: if_splits option.splits)
  show "AudioFrameDropCount cb' = AudioFrameDropCount cb"
    and "MaxNumAudioFrameBuffer cb' = MaxNumAudioFrameBuffer cb"
    and "MaxNumVideoFrameBuffer cb' = MaxNumVideoFrameBuffer cb"
    using assms
    by (auto simp: ProcessVideo_def Let_def split: if_splits option.splits)
  show "VideoFrameDropCount cb' = VideoFrameDropCount cb + 1
           \<and> NumVideoSamples (get_base w) + (if FieldDominance i = Interlaced then 1 else 0)
               \<ge> int32_mul (MaxNumVideoFrameBuffer cb) ToleratedExtraMaxBufferCount
           \<and> w' = w" if "VideoFrameDropCount cb' \<noteq> VideoFrameDropCount cb"
    using assms that
    by (auto simp: ProcessVideo_def Let_def split: if_splits option.splits)
qed

lemma ProcessVideo_interlaced:
  assumes "VideoBuffer i = Some buf" and "FieldDominance i = Interlaced"
    and "NumVideoSamples (get_base w) + 1
           < int32_mul (MaxNumVideoFrameBuffer cb) ToleratedExtraMaxBufferCount"
  shows "\<exists>w'. ProcessVideo x i d cb w = (cb, w')
           \<and> VideoSamples (get_base w') = VideoSamples (get_base w)
                @ (if TextureInitialize x (make_TextureSample (Some True) buf i (DecodedTime d)
                        (VideoFrameRate (get_base w)) (DecodedTimecode d) (bIsSRGBInput cb))
                   then [make_TextureSample (Some True) buf i (DecodedTime d)
                        (VideoFrameRate (get_base w)) (DecodedTimecode d) (bIsSRGBInput cb)] else [])
                @ (if TextureInitialize x (make_TextureSample (Some False) buf i (DecodedTimeF2 d)
                        (VideoFrameRate (get_base w)) (DecodedTimecodeF2 d) (bIsSRGBInput cb))
                   then [make_TextureSample (Some False) buf i (DecodedTimeF2 d)
                        (VideoFrameRate (get_base w)) (DecodedTimecodeF2 d) (bIsSRGBInput cb)] else [])"
  using assms
  by (simp add: ProcessVideo_def Let_def AddVideoIfInitialized_props WriteRawData_base)

text \<open>The frame event on an attached callback object that is playing, block by block.\<close>

lemma FrameReceived_playing:
  assumes "MediaPlayer cb" and "MediaState cb = Playing"
    and "bHasInputSource i \<or> AudioBuffer i \<noteq> None"
  shows "\<exists>d cb2 w2 cb3 w3.
           DecodeTimecode x c i (cb\<lparr>bReceivedValidFrame := (bReceivedValidFrame cb \<or> bHasInputSource i)\<rparr>) w
             = (d, cb2, w2)
           \<and> ProcessAudio x i d cb2 w2 = (cb3, w3)
           \<and> FrameReceived x c i cb w = ProcessVideo x i d cb3 w3"
proof -
  let ?cb1 = "cb\<lparr>bReceivedValidFrame := (bReceivedValidFrame cb \<or> bHasInputSource i)\<rparr>"
  obtain d cb2 w2 where dt: "DecodeTimecode x c i ?cb1 w = (d, cb2, w2)" by (metis prod_cases3)
  obtain cb3 w3 where pa: "ProcessAudio x i d cb2 w2 = (cb3, w3)" by (metis surj_pair)
  have "FrameReceived x c i cb w = ProcessVideo x i d cb3 w3"
    using assms dt pa by (auto simp: FrameReceived_def Let_def)
  with dt pa show ?thesis by blast
qed

lemma FrameReceived_accounting:
  assumes fr: "FrameReceived x c i cb w = (cb', w')"
  shows "MaxNumAudioFrameBuffer cb' = MaxNumAudioFrameBuffer cb"
    and "MaxNumVideoFrameBuffer cb' = MaxNumVideoFrameBuffer cb"
    and "AudioFrameDropCount cb' \<noteq> AudioFrameDropCount cb \<Longrightarrow>
           AudioFrameDropCount cb' = AudioFrameDropCount cb + 1
           \<and> NumAudioSamples (get_base w)
               \<ge> int32_mul (MaxNumAudioFrameBuffer cb) ToleratedExtraMaxBufferCount
           \<and> AudioSamples (get_base w') = AudioSamples (get_base w)"
    and "VideoFrameDropCount cb' \<noteq> VideoFrameDropCount cb \<Longrightarrow>
           VideoFrameDropCount cb' = VideoFrameDropCount cb + 1
           \<and> NumVideoSamples (get_base w) + (if FieldDominance i = Interlaced then 1 else 0)
               \<ge> int32_mul (MaxNumVideoFrameBuffer cb) ToleratedExtraMaxBufferCount
           \<and> VideoSamples (get_base w') = VideoSamples (get_base w)"
proof -
  let ?cb1 = "cb\<lparr>bReceivedValidFrame := (bReceivedValidFrame cb \<or> bHasInputSource i)\<rparr>"
  let ?A = "MaxNumAudioFrameBuffer cb' = MaxNumAudioFrameBuffer cb"
  let ?B = "MaxNumVideoFrameBuffer cb' = MaxNumVideoFrameBuffer cb"
  let ?C = "AudioFrameDropCount cb' \<noteq> AudioFrameDropCount cb \<longrightarrow>
           AudioFrameDropCount cb' = AudioFrameDropCount cb + 1
           \<and> NumAudioSamples (get_base w)
               \<ge> int32_mul (MaxNumAudioFrameBuffer cb) ToleratedExtraMaxBufferCount
           \<and> AudioSamples (get_base w') = AudioSamples (get_base w)"
  let ?D = "VideoFrameDropCount cb' \<noteq> VideoFrameDropCount cb \<longrightarrow>
           VideoFrameDropCount cb' = VideoFrameDropCount cb + 1
           \<and> NumVideoSamples (get_base w) + (if FieldDominance i = Interlaced then 1 else 0)
               \<ge> int32_mul (MaxNumVideoFrameBuffer cb) ToleratedExtraMaxBufferCount
           \<and> VideoSamples (get_base w') = VideoSamples (get_base w)"
  have all: "?A \<and> ?B \<and> ?C \<and> ?D"
  proof (cases "MediaPlayer cb \<and> MediaState cb = Playing \<and> (bHasInputSource i \<or> AudioBuffer i \<noteq> None)")
    case True
    from FrameReceived_playing[of cb i x c w] True obtain d cb2 w2 cb3 w3 where
      dt: "DecodeTimecode x c i ?cb1 w = (d, cb2, w2)"
      and pa: "ProcessAudio x i d cb2 w2 = (cb3, w3)"
      and pv: "FrameReceived x c i cb w = ProcessVideo x i d cb3 w3" by blast
    from pv fr have pv': "ProcessVideo x i d cb3 w3 = (cb', w')" by simp
    note D = DecodeTimecode_props[OF dt]
    note A = ProcessAudio_props[OF pa]
    note V = ProcessVideo_props[OF pv']
    have b2: "get_base w2 = get_base w" using D(1) by (simp add: get_base_def)
    have ?A using D(5) A(5) V(3) by simp
    moreover have ?B using D(6) A(6) V(4) by simp
    moreover have ?C
    proof
      assume "AudioFrameDropCount cb' \<noteq> AudioFrameDropCount cb"
      then have ne: "AudioFrameDropCount cb3 \<noteq> AudioFrameDropCount cb2" using V(2) D(3) by simp
      from A(7)[OF ne] V(1,2) D(3,5) b2
      show "AudioFrameDropCount cb' = AudioFrameDropCount cb + 1
           \<and> NumAudioSamples (get_base w)
               \<ge> int32_mul (MaxNumAudioFrameBuffer cb) ToleratedExtraMaxBufferCount
           \<and> AudioSamples (get_base w') = AudioSamples (get_base w)" by simp
    qed
    moreover have ?D
    proof
      assume "VideoFrameDropCount cb' \<noteq> VideoFrameDropCount cb"
      then have ne: "VideoFrameDropCount cb' \<noteq> VideoFrameDropCount cb3" using A(4) D(4) by simp
      from V(5)[OF ne] A(1,4,6) D(4,6) b2
      show "VideoFrameDropCount cb' = VideoFrameDropCount cb + 1
           \<and> NumVideoSamples (get_base w) + (if FieldDominance i = Interlaced then 1 else 0)
               \<ge> int32_mul (MaxNumVideoFrameBuffer cb) ToleratedExtraMaxBufferCount
           \<and> VideoSamples (get_base w') = VideoSamples (get_base w)"
        by (simp add: NumVideoSamples_def)
    qed
    ultimately show ?thesis by blast
  next
    case False
    then consider (detached) "\<not> MediaPlayer cb"
      | (nosignal) "MediaPlayer cb" "\<not> bHasInputSource i \<and> AudioBuffer i = None"
      | (idle) "MediaPlayer cb" "bHasInputSource i \<or> AudioBuffer i \<noteq> None" "MediaState cb \<noteq> Playing"
      by blast
    then show ?thesis
    proof cases
      case detached
      with fr show ?thesis by (simp add: FrameReceived_def)
    next
      case nosignal
      with fr have "NoSignal c cb w = (cb', w')" by (simp add: FrameReceived_def)
      from NoSignal_queues[OF this] show ?thesis by simp
    next
      case idle
      with fr show ?thesis by (auto simp: FrameReceived_def Let_def)
    qed
  qed
  from all show ?A and ?B by blast+
  from all show "AudioFrameDropCount cb' = AudioFrameDropCount cb + 1
           \<and> NumAudioSamples (get_base w)
               \<ge> int32_mul (MaxNumAudioFrameBuffer cb) ToleratedExtraMaxBufferCount
           \<and> AudioSamples (get_base w') = AudioSamples (get_base w)"
    if "AudioFrameDropCount cb' \<noteq> AudioFrameDropCount cb" using that by blast
  from all show "VideoFrameDropCount cb' = VideoFrameDropCount cb + 1
           \<and> NumVideoSamples (get_base w) + (if FieldDominance i = Interlaced then 1 else 0)
               \<ge> int32_mul (MaxNumVideoFrameBuffer cb) ToleratedExtraMaxBufferCount
           \<and> VideoSamples (get_base w') = VideoSamples (get_base w)"
    if "VideoFrameDropCount cb' \<noteq> VideoFrameDropCount cb" using that by blast
qed

lemma OnFrameReceived_split:
  assumes "OnFrameReceived x c i a w = Inr w'"
  shows "\<exists>cb cb1 w1. Heap w a = Some cb \<and> FrameReceived x c i cb w = (cb1, w1)
           \<and> w' = store a cb1 w1"
proof -
  from assms obtain cb where h: "Heap w a = Some cb"
    by (cases "Heap w a") (auto simp: OnFrameReceived_def)
  obtain cb1 w1 where fr: "FrameReceived x c i cb w = (cb1, w1)" by (metis surj_pair)
  from assms h fr have "w' = store a cb1 w1" by (simp add: OnFrameReceived_def)
  with h fr show ?thesis by blast
qed

lemma store_fields:
  "Heap (store a cb w) a = Some cb" "get_base (store a cb w) = get_base w"
  "ThePlayer (store a cb w) = ThePlayer w"
  by (simp_all add: store_def get_base_def)

lemma run_frames_Max:
  assumes "run_frames x a evs w = Inr w'" and "Heap w a = Some cb"
  shows "\<exists>cb'. Heap w' a = Some cb'
           \<and> MaxNumAudioFrameBuffer cb' = MaxNumAudioFrameBuffer cb
           \<and> MaxNumVideoFrameBuffer cb' = MaxNumVideoFrameBuffer cb"
  using assms
proof (induction evs arbitrary: w cb)
  case Nil
  then show ?case by simp
next
  case (Cons e es)
  from Cons.prems(1) obtain v where st: "OnFrameReceived x (fst e) (snd e) a w = Inr v"
    and rest: "run_frames x a es v = Inr w'"
    by (cases "OnFrameReceived x (fst e) (snd e) a w") simp_all
  from OnFrameReceived_split[OF st] Cons.prems(2) obtain cb1 w1 where
    fr: "FrameReceived x (fst e) (snd e) cb w = (cb1, w1)" and v: "v = store a cb1 w1" by auto
  have hv: "Heap v a = Some cb1" by (simp add: v store_fields)
  from Cons.IH[OF rest hv] FrameReceived_accounting(1,2)[OF fr] show ?case by simp
qed

lemma int32_mul_exact:
  assumes "- (2 ^ 30) \<le> m" and "m < 2 ^ 30"
  shows "int32_mul m ToleratedExtraMaxBufferCount = m * 2"
proof -
  have "0 \<le> m * 2 + 2 ^ 31" and "m * 2 + 2 ^ 31 < 2 ^ 32" using assms by simp_all
  then have "(m * 2 + 2 ^ 31) mod 2 ^ 32 = m * 2 + 2 ^ 31" by simp
  then show ?thesis by (simp add: int32_mul_def ToleratedExtraMaxBufferCount_def)
qed

lemma audio_capacity_wraps:
  "MaxNumAudioFrameBuffer big_max_callback = 2 ^ 30
   \<and> int32_mul (MaxNumAudioFrameBuffer big_max_callback) ToleratedExtraMaxBufferCount = - (2 ^ 31)
   \<and> NumAudioSamples (get_base (with_callback big_max_callback)) = 0
   \<and> OnFrameReceived example_ext (at_time 5) audio_frame 0 (with_callback big_max_callback)
        = Inr (with_callback (big_max_callback\<lparr>bReceivedValidFrame := True, AudioFrameDropCount := 1\<rparr>))"
  by (simp add: frame_defs example_defs big_max_callback_def audio_frame_def fun_eq_iff)

lemma video_capacity_wraps:
  "MaxNumVideoFrameBuffer big_video_max_callback = 2 ^ 30
   \<and> int32_mul (MaxNumVideoFrameBuffer big_video_max_callback) ToleratedExtraMaxBufferCount = - (2 ^ 31)
   \<and> NumVideoSamples (get_base (with_callback big_video_max_callback)) = 0
   \<and> OnFrameReceived example_ext (at_time 5) video_frame 0 (with_callback big_video_max_callback)
        = Inr (with_callback (big_video_max_callback\<lparr>bReceivedValidFrame := True, VideoFrameDropCount := 1\<rparr>))"
  by (simp add: frame_defs example_defs big_video_max_callback_def video_frame_def fun_eq_iff)

section \<open>The claims\<close>

text \<open>
  Claim C1, as amended. Take any sequence of frame events delivered to a callback object
  with soft maxima \<open>MaxNumAudioFrameBuffer\<close> and \<open>MaxNumVideoFrameBuffer\<close>, then one more
  frame event (an enqueue attempt), then the maintenance step
  \<^verbatim>\<open>VerifyFrameDropCount_GameThread\<close>. The events leave the two maxima as they were. After
  the maintenance step the audio queue is no longer than the audio maximum when that maximum
  is not negative, and likewise for video. The attempt changes the audio drop counter only
  by adding one, only when the audio occupancy before the attempt was at least the
  \<^verbatim>\<open>int32\<close> product of the maximum and the tolerance 2, and then it leaves the audio queue as
  it was; the same holds for video, with the occupancy counted one higher for an interlaced
  picture. When the maximum \<open>M\<close> lies between \<open>- 2 ^ 30\<close> and \<open>2 ^ 30 - 1\<close> that product is
  \<open>2 * M\<close>, the hard capacity of the claim.

  The claim as written has no condition on the maximum. With a negative maximum the queue
  length, which is never negative, cannot be at most the maximum (see the counterexample
  below); and from \<open>2 ^ 30\<close> on the product of lines 239 and 269 leaves the range of
  \<^verbatim>\<open>int32\<close>, so that a block is dropped from an empty queue (lemmas \<open>audio_capacity_wraps\<close>
  and \<open>video_capacity_wraps\<close>).
\<close>

theorem buffer_bound_and_drop_accounting:
  assumes hp: "Heap w0 a = Some cb0"
    and run: "run_frames x a evs w0 = Inr w1"
    and att: "OnFrameReceived x c i a w1 = Inr w2"
    and ver: "VerifyFrameDropCount_GameThread u a w2 = Inr (w3, na, nv)"
  shows "\<exists>cb1 cb2. Heap w1 a = Some cb1 \<and> Heap w2 a = Some cb2
           \<and> MaxNumAudioFrameBuffer cb1 = MaxNumAudioFrameBuffer cb0
           \<and> MaxNumVideoFrameBuffer cb1 = MaxNumVideoFrameBuffer cb0
           \<and> MaxNumAudioFrameBuffer cb2 = MaxNumAudioFrameBuffer cb0
           \<and> MaxNumVideoFrameBuffer cb2 = MaxNumVideoFrameBuffer cb0
           \<and> (0 \<le> MaxNumAudioFrameBuffer cb0 \<longrightarrow>
                 NumAudioSamples (get_base w3) \<le> MaxNumAudioFrameBuffer cb0)
           \<and> (0 \<le> MaxNumVideoFrameBuffer cb0 \<longrightarrow>
                 NumVideoSamples (get_base w3) \<le> MaxNumVideoFrameBuffer cb0)
           \<and> (AudioFrameDropCount cb2 \<noteq> AudioFrameDropCount cb1 \<longrightarrow>
                 AudioFrameDropCount cb2 = AudioFrameDropCount cb1 + 1
                 \<and> NumAudioSamples (get_base w1)
                     \<ge> int32_mul (MaxNumAudioFrameBuffer cb0) ToleratedExtraMaxBufferCount
                 \<and> (- (2 ^ 30) \<le> MaxNumAudioFrameBuffer cb0 \<and> MaxNumAudioFrameBuffer cb0 < 2 ^ 30 \<longrightarrow>
                       NumAudioSamples (get_base w1) \<ge> MaxNumAudioFrameBuffer cb0 * 2)
                 \<and> AudioSamples (get_base w2) = AudioSamples (get_base w1))
           \<and> (VideoFrameDropCount cb2 \<noteq> VideoFrameDropCount cb1 \<longrightarrow>
                 VideoFrameDropCount cb2 = VideoFrameDropCount cb1 + 1
                 \<and> NumVideoSamples (get_base w1) + (if FieldDominance i = Interlaced then 1 else 0)
                     \<ge> int32_mul (MaxNumVideoFrameBuffer cb0) ToleratedExtraMaxBufferCount
                 \<and> (- (2 ^ 30) \<le> MaxNumVideoFrameBuffer cb0 \<and> MaxNumVideoFrameBuffer cb0 < 2 ^ 30 \<longrightarrow>
                       NumVideoSamples (get_base w1) + (if FieldDominance i = Interlaced then 1 else 0)
                         \<ge> MaxNumVideoFrameBuffer cb0 * 2)
                 \<and> VideoSamples (get_base w2) = VideoSamples (get_base w1))"
proof -
  from run_frames_Max[OF run hp] obtain cb1 where h1: "Heap w1 a = Some cb1"
    and m1: "MaxNumAudioFrameBuffer cb1 = MaxNumAudioFrameBuffer cb0"
            "MaxNumVideoFrameBuffer cb1 = MaxNumVideoFrameBuffer cb0" by blast
  from OnFrameReceived_split[OF att] h1 obtain cb2 v where
    fr: "FrameReceived x c i cb1 w1 = (cb2, v)" and w2: "w2 = store a cb2 v" by auto
  have h2: "Heap w2 a = Some cb2" and b2: "get_base w2 = get_base v"
    by (simp_all add: w2 store_fields)
  note F = FrameReceived_accounting[OF fr]
  note R = Verify_result[OF ver h2]
  have la: "0 \<le> MaxNumAudioFrameBuffer cb0 \<longrightarrow> NumAudioSamples (get_base w3) \<le> MaxNumAudioFrameBuffer cb0"
    using R(2) trimmed_length[of "MaxNumAudioFrameBuffer cb0" "AudioSamples (get_base w2)"] F(1) m1
    by (simp add: NumAudioSamples_def AudioOverflow_def)
  have lv: "0 \<le> MaxNumVideoFrameBuffer cb0 \<longrightarrow> NumVideoSamples (get_base w3) \<le> MaxNumVideoFrameBuffer cb0"
    using R(3) trimmed_length[of "MaxNumVideoFrameBuffer cb0" "VideoSamples (get_base w2)"] F(2) m1
    by (simp add: NumVideoSamples_def VideoOverflow_def)
  have xa: "- (2 ^ 30) \<le> MaxNumAudioFrameBuffer cb0 \<and> MaxNumAudioFrameBuffer cb0 < 2 ^ 30 \<longrightarrow>
      int32_mul (MaxNumAudioFrameBuffer cb0) ToleratedExtraMaxBufferCount = MaxNumAudioFrameBuffer cb0 * 2"
    using int32_mul_exact by blast
  have xv: "- (2 ^ 30) \<le> MaxNumVideoFrameBuffer cb0 \<and> MaxNumVideoFrameBuffer cb0 < 2 ^ 30 \<longrightarrow>
      int32_mul (MaxNumVideoFrameBuffer cb0) ToleratedExtraMaxBufferCount = MaxNumVideoFrameBuffer cb0 * 2"
    using int32_mul_exact by blast
  have A: "AudioFrameDropCount cb2 \<noteq> AudioFrameDropCount cb1 \<longrightarrow>
                 AudioFrameDropCount cb2 = AudioFrameDropCount cb1 + 1
                 \<and> NumAudioSamples (get_base w1)
                     \<ge> int32_mul (MaxNumAudioFrameBuffer cb0) ToleratedExtraMaxBufferCount
                 \<and> (- (2 ^ 30) \<le> MaxNumAudioFrameBuffer cb0 \<and> MaxNumAudioFrameBuffer cb0 < 2 ^ 30 \<longrightarrow>
                       NumAudioSamples (get_base w1) \<ge> MaxNumAudioFrameBuffer cb0 * 2)
                 \<and> AudioSamples (get_base w2) = AudioSamples (get_base w1)"
    using F(3) m1 xa b2 by auto
  have V: "VideoFrameDropCount cb2 \<noteq> VideoFrameDropCount cb1 \<longrightarrow>
                 VideoFrameDropCount cb2 = VideoFrameDropCount cb1 + 1
                 \<and> NumVideoSamples (get_base w1) + (if FieldDominance i = Interlaced then 1 else 0)
                     \<ge> int32_mul (MaxNumVideoFrameBuffer cb0) ToleratedExtraMaxBufferCount
                 \<and> (- (2 ^ 30) \<le> MaxNumVideoFrameBuffer cb0 \<and> MaxNumVideoFrameBuffer cb0 < 2 ^ 30 \<longrightarrow>
                       NumVideoSamples (get_base w1) + (if FieldDominance i = Interlaced then 1 else 0)
                         \<ge> MaxNumVideoFrameBuffer cb0 * 2)
                 \<and> VideoSamples (get_base w2) = VideoSamples (get_base w1)"
    using F(4) m1 xv b2 by auto
  from h1 h2 m1 F(1,2) la lv A V show ?thesis by simp
qed

text \<open>
  Counterexample to claim C1 as written: with the soft maximum \<open>-1\<close> for audio (the options
  of \<^verbatim>\<open>Open\<close> are not validated, and \<open>-1\<close> is an \<^verbatim>\<open>int32\<close>), the maintenance step on an
  empty queue succeeds and leaves a queue of length 0, which is not at most \<open>-1\<close>.
\<close>

theorem buffer_bound_and_drop_accounting_counterexample:
  "run_frames example_ext 0 [] (with_callback negative_max_callback) = Inr (with_callback negative_max_callback)
   \<and> Heap (with_callback negative_max_callback) 0 = Some negative_max_callback
   \<and> MaxNumAudioFrameBuffer negative_max_callback = - 1
   \<and> VerifyFrameDropCount_GameThread [] 0 (with_callback negative_max_callback)
        = Inr (add_log (LostAudioFrames 1 []) (with_callback negative_max_callback), 1, 0)
   \<and> NumAudioSamples (get_base (add_log (LostAudioFrames 1 []) (with_callback negative_max_callback))) = 0
   \<and> \<not> NumAudioSamples (get_base (add_log (LostAudioFrames 1 []) (with_callback negative_max_callback)))
         \<le> MaxNumAudioFrameBuffer negative_max_callback"
  by (simp add: VerifyFrameDropCount_GameThread_def for_loop_PopAudio for_loop_PopVideo frame_defs
      example_defs negative_max_callback_def fun_eq_iff)

text \<open>
  Witness for C1: with maxima 1 (audio) and 2 (video), two frames fill the audio queue to
  its hard capacity 2; the third frame is an attempt that drops the audio block, and the
  maintenance step then trims the audio queue to 1.
\<close>

theorem buffer_bound_and_drop_accounting_witness:
  "\<exists>w1 w2 w3 cb1 cb2.
      run_frames example_ext 0 [(at_time 5, example_frame), (at_time 6, example_frame)] example_world = Inr w1
      \<and> OnFrameReceived example_ext (at_time 7) example_frame 0 w1 = Inr w2
      \<and> VerifyFrameDropCount_GameThread [] 0 w2 = Inr (w3, 2, 3)
      \<and> Heap w1 0 = Some cb1 \<and> Heap w2 0 = Some cb2
      \<and> MaxNumAudioFrameBuffer cb1 = 1 \<and> MaxNumVideoFrameBuffer cb1 = 2
      \<and> NumAudioSamples (get_base w1) = 2 \<and> NumVideoSamples (get_base w1) = 4
      \<and> AudioFrameDropCount cb2 = AudioFrameDropCount cb1 + 1
      \<and> VideoFrameDropCount cb2 = VideoFrameDropCount cb1 + 1
      \<and> AudioSamples (get_base w2) = AudioSamples (get_base w1)
      \<and> VideoSamples (get_base w2) = VideoSamples (get_base w1)
      \<and> NumAudioSamples (get_base w3) \<le> 1 \<and> NumVideoSamples (get_base w3) \<le> 2"
proof -
  have calc: "\<exists>w1 w2 w3 cb1 cb2.
      run_frames example_ext 0 [(at_time 5, example_frame), (at_time 6, example_frame)] example_world = Inr w1
      \<and> OnFrameReceived example_ext (at_time 7) example_frame 0 w1 = Inr w2
      \<and> VerifyFrameDropCount_GameThread [] 0 w2 = Inr (w3, 2, 3)
      \<and> Heap w1 0 = Some cb1 \<and> Heap w2 0 = Some cb2
      \<and> NumAudioSamples (get_base w1) = 2 \<and> NumVideoSamples (get_base w1) = 4
      \<and> AudioFrameDropCount cb2 \<noteq> AudioFrameDropCount cb1
      \<and> VideoFrameDropCount cb2 \<noteq> VideoFrameDropCount cb1"
    by (simp add: VerifyFrameDropCount_GameThread_def for_loop_PopAudio for_loop_PopVideo frame_defs
        example_defs)
  then obtain w1 w2 w3 cb1 cb2 where
    run: "run_frames example_ext 0 [(at_time 5, example_frame), (at_time 6, example_frame)] example_world = Inr w1"
    and att: "OnFrameReceived example_ext (at_time 7) example_frame 0 w1 = Inr w2"
    and ver: "VerifyFrameDropCount_GameThread [] 0 w2 = Inr (w3, 2, 3)"
    and h: "Heap w1 0 = Some cb1" "Heap w2 0 = Some cb2"
    and n: "NumAudioSamples (get_base w1) = 2" "NumVideoSamples (get_base w1) = 4"
    and ne: "AudioFrameDropCount cb2 \<noteq> AudioFrameDropCount cb1"
            "VideoFrameDropCount cb2 \<noteq> VideoFrameDropCount cb1"
    by blast
  have m: "MaxNumAudioFrameBuffer example_callback = 1" "MaxNumVideoFrameBuffer example_callback = 2"
    by (simp_all add: example_defs)
  from buffer_bound_and_drop_accounting[OF example_Heap run att ver] h ne m
  have "MaxNumAudioFrameBuffer cb1 = 1 \<and> MaxNumVideoFrameBuffer cb1 = 2
      \<and> AudioFrameDropCount cb2 = AudioFrameDropCount cb1 + 1
      \<and> VideoFrameDropCount cb2 = VideoFrameDropCount cb1 + 1
      \<and> AudioSamples (get_base w2) = AudioSamples (get_base w1)
      \<and> VideoSamples (get_base w2) = VideoSamples (get_base w1)
      \<and> NumAudioSamples (get_base w3) \<le> 1 \<and> NumVideoSamples (get_base w3) \<le> 2"
    by auto
  with run att ver h n show ?thesis by blast
qed

text \<open>
  Claim C2, as amended. (a) Suppose no valid frame was received, \<open>LastHasFrameTime\<close> still
  has a value below 0.1 (as the constructor leaves it) and the state is not \<open>Error\<close>. For
  every non-empty sequence of frame events that report no input source and carry no audio
  buffer, whose wall-clock times do not decrease, the run returns, and if the state is
  \<open>Error\<close> after the last event then more than 2 seconds lie between the first event and the
  last. Since this holds for every such sequence, it holds for every prefix: the state is not
  \<open>Error\<close> before 2 seconds have passed. (b) Let the callback object be attached to its
  player. If it receives a frame event that reports an input source, then any frame events,
  then one event that reports no input source and carries no audio buffer, the run returns
  and the state is \<open>Error\<close>.

  The claim as written does not ask in (b) for the callback object to be attached; once
  \<^verbatim>\<open>Uninitialize\<close> has cleared the back-reference, line 172 returns before the no-signal
  test (see the counterexample below).

  The times are real numbers here. The source computes \<^verbatim>\<open>CurrentTime - LastHasFrameTime > 2.0\<close>
  in \<^verbatim>\<open>double\<close>; rounding is monotone and 2.0 is exact, so the test of the source can only
  succeed when the exact difference is above 2 (the model may set \<open>Error\<close> where rounding
  keeps the source from doing so, never the other way round); and no \<^verbatim>\<open>double\<close> lies
  between \<open>1 / 10\<close> and the literal \<^verbatim>\<open>0.1\<close>, so the first test is the source's.
\<close>

theorem no_signal_timeout:
  assumes hp: "Heap w a = Some cb"
  shows "(\<not> bReceivedValidFrame cb \<and> LastHasFrameTime cb < 1 / 10 \<and> MediaState cb \<noteq> Error
          \<and> (\<forall>e\<in>set (e0 # es). \<not> bHasInputSource (snd e) \<and> AudioBuffer (snd e) = None)
          \<and> sorted (map (\<lambda>e. CurrentTime (fst e)) (e0 # es))
          \<longrightarrow> (\<exists>w' cb'. run_frames x a (e0 # es) w = Inr w' \<and> Heap w' a = Some cb'
                  \<and> (MediaState cb' = Error \<longrightarrow>
                       CurrentTime (fst (last (e0 # es))) - CurrentTime (fst e0) > 2)))
       \<and> (MediaPlayer cb \<and> bHasInputSource i1 \<and> \<not> bHasInputSource i2 \<and> AudioBuffer i2 = None
          \<longrightarrow> (\<exists>w' cb'. run_frames x a ((c1, i1) # evs @ [(c2, i2)]) w = Inr w'
                  \<and> Heap w' a = Some cb' \<and> MediaState cb' = Error))"
proof (intro conjI impI)
  assume h: "\<not> bReceivedValidFrame cb \<and> LastHasFrameTime cb < 1 / 10 \<and> MediaState cb \<noteq> Error
          \<and> (\<forall>e\<in>set (e0 # es). \<not> bHasInputSource (snd e) \<and> AudioBuffer (snd e) = None)
          \<and> sorted (map (\<lambda>e. CurrentTime (fst e)) (e0 # es))"
  show "\<exists>w' cb'. run_frames x a (e0 # es) w = Inr w' \<and> Heap w' a = Some cb'
                  \<and> (MediaState cb' = Error \<longrightarrow>
                       CurrentTime (fst (last (e0 # es))) - CurrentTime (fst e0) > 2)"
  proof (cases "MediaPlayer cb")
    case False
    from run_frames_detached[OF hp False, of x "e0 # es"] hp h show ?thesis by auto
  next
    case at: True
    define t0 where "t0 = CurrentTime (fst e0)"
    have "\<exists>w' cb'. run_frames x a (e0 # es) w = Inr w' \<and> Heap w' a = Some cb'
             \<and> (MediaState cb' = Error \<longrightarrow>
                   last (t0 # map (\<lambda>e. CurrentTime (fst e)) (e0 # es)) - t0 > 2)"
    proof (rule run_no_signal[OF _ _ _ hp at])
      show "\<forall>e\<in>set (e0 # es). \<not> bHasInputSource (snd e) \<and> AudioBuffer (snd e) = None"
        using h by blast
      show "sorted (map (\<lambda>e. CurrentTime (fst e)) (e0 # es))" using h by blast
      show "\<forall>e\<in>set (e0 # es). t0 \<le> CurrentTime (fst e)" using h by (auto simp: t0_def)
      show "\<not> bReceivedValidFrame cb" using h by blast
      show "LastHasFrameTime cb < 1 / 10 \<or> t0 \<le> LastHasFrameTime cb" using h by blast
      show "MediaState cb = Error \<longrightarrow> t0 - t0 > 2" using h by blast
      show "t0 \<le> t0" by simp
    qed
    moreover have "last (t0 # map (\<lambda>e. CurrentTime (fst e)) (e0 # es)) = CurrentTime (fst (last (e0 # es)))"
      by (simp add: last_map)
    ultimately show ?thesis by (simp add: t0_def)
  qed
next
  assume h: "MediaPlayer cb \<and> bHasInputSource i1 \<and> \<not> bHasInputSource i2 \<and> AudioBuffer i2 = None"
  obtain cb1 w1 where fr: "FrameReceived x c1 i1 cb w = (cb1, w1)" by (metis surj_pair)
  have st: "OnFrameReceived x c1 i1 a w = Inr (store a cb1 w1)"
    using OnFrameReceived_total[OF hp] fr by simp
  have h1: "Heap (store a cb1 w1) a = Some cb1" by (simp add: store_def)
  have f1: "MediaPlayer cb1" "bReceivedValidFrame cb1"
    using FrameReceived_flags(1,3)[OF fr] h by simp_all
  from run_frames_flags[OF h1 f1, of x evs] obtain w2 cb2 where
    r2: "run_frames x a evs (store a cb1 w1) = Inr w2" and h2: "Heap w2 a = Some cb2"
    and f2: "MediaPlayer cb2" "bReceivedValidFrame cb2" by blast
  obtain cb3 w3 where ns: "NoSignal c2 cb2 w2 = (cb3, w3)" by (metis surj_pair)
  have last: "OnFrameReceived x c2 i2 a w2 = Inr (store a cb3 w3)"
    using OnFrameReceived_no_signal[OF h2 f2(1)] h ns by simp
  have "MediaState cb3 = Error" using NoSignal_fields(4)[OF ns] f2(2) by simp
  moreover have "run_frames x a ((c1, i1) # evs @ [(c2, i2)]) w = Inr (store a cb3 w3)"
    using st r2 last by (simp add: run_frames_append)
  ultimately show "\<exists>w' cb'. run_frames x a ((c1, i1) # evs @ [(c2, i2)]) w = Inr w'
                  \<and> Heap w' a = Some cb' \<and> MediaState cb' = Error"
    by (simp add: store_def)
qed

text \<open>
  Counterexample to claim C2 as written: the example callback object receives a valid frame
  (an input source, no buffers), which line 192 records; the player then calls
  \<^verbatim>\<open>Uninitialize\<close>, and the object survives because the capture library holds a reference.
  A no-signal event that arrives afterwards returns at line 172 and changes nothing: a valid
  frame was received before, and the state is \<open>Stopped\<close>, not \<open>Error\<close>.
\<close>

theorem no_signal_timeout_counterexample:
  "bHasInputSource valid_frame
   \<and> OnFrameReceived example_ext (at_time 5) valid_frame 0 example_world
        = Inr (with_callback (example_callback\<lparr>bReceivedValidFrame := True\<rparr>))
   \<and> Uninitialize 0 (with_callback (example_callback\<lparr>bReceivedValidFrame := True\<rparr>)) = Inr detached_world
   \<and> \<not> bHasInputSource example_no_signal \<and> AudioBuffer example_no_signal = None
   \<and> OnFrameReceived example_ext (at_time 10) example_no_signal 0 detached_world = Inr detached_world
   \<and> Heap detached_world 0 = Some (Uninitialized (example_callback\<lparr>bReceivedValidFrame := True\<rparr>))
   \<and> bReceivedValidFrame (Uninitialized (example_callback\<lparr>bReceivedValidFrame := True\<rparr>))
   \<and> MediaState (Uninitialized (example_callback\<lparr>bReceivedValidFrame := True\<rparr>)) = Stopped"
proof -
  let ?cb = "example_callback\<lparr>bReceivedValidFrame := True\<rparr>"
  have a: "bHasInputSource valid_frame" "\<not> bHasInputSource example_no_signal"
    "AudioBuffer example_no_signal = None"
    by (simp_all add: valid_frame_def example_no_signal_def example_frame_def)
  have b: "OnFrameReceived example_ext (at_time 5) valid_frame 0 example_world = Inr (with_callback ?cb)"
    by (simp add: frame_defs example_defs valid_frame_def fun_eq_iff)
  have h: "Heap (with_callback ?cb) 0 = Some ?cb" by (simp add: with_callback_def)
  have "(if RefCounter ?cb = 1 then Inl UseAfterFree
         else Inr ((with_callback ?cb)\<lparr>Heap := (Heap (with_callback ?cb))(0 := Some (Uninitialized ?cb)),
                     SdkCalls := SdkCalls (with_callback ?cb) @ Unregistration ?cb\<rparr>)) = Inr detached_world"
    by (simp add: detached_world_def Unregistration_def example_defs fun_eq_iff)
  then have c: "Uninitialize 0 (with_callback ?cb) = Inr detached_world"
    using Uninitialize_effect[OF h] by simp
  have d: "Heap detached_world 0 = Some (Uninitialized ?cb)"
    by (simp add: detached_world_def with_callback_def)
  have e: "\<not> MediaPlayer (Uninitialized ?cb)" "bReceivedValidFrame (Uninitialized ?cb)"
    "MediaState (Uninitialized ?cb) = Stopped"
    by (simp_all add: Uninitialized_def example_defs)
  have f: "OnFrameReceived example_ext (at_time 10) example_no_signal 0 detached_world = Inr detached_world"
    using OnFrameReceived_detached[OF d e(1)] by simp
  from a b c d e f show ?thesis by simp
qed

text \<open>
  Witness for C2: no-signal events at 10 s, 11 s and 12.5 s end in \<open>Error\<close>, 2.5 s after the
  first; and a valid frame at 5 s, a frame at 6 s and a no-signal event at 7 s end in
  \<open>Error\<close>.
\<close>

theorem no_signal_timeout_witness:
  "(\<exists>w' cb'. run_frames example_ext 0
        [(at_time 10, example_no_signal), (at_time 11, example_no_signal),
         (at_time (25 / 2), example_no_signal)] example_world = Inr w'
      \<and> Heap w' 0 = Some cb' \<and> MediaState cb' = Error
      \<and> CurrentTime (fst (at_time (25 / 2), example_no_signal)) - CurrentTime (fst (at_time 10, example_no_signal)) > 2)
   \<and> (\<exists>w' cb'. run_frames example_ext 0
          ((at_time 5, valid_frame) # [(at_time 6, example_frame)] @ [(at_time 7, example_no_signal)])
          example_world = Inr w'
      \<and> Heap w' 0 = Some cb' \<and> MediaState cb' = Error)"
proof
  let ?e0 = "(at_time 10, example_no_signal)"
  let ?es = "[(at_time 11, example_no_signal), (at_time (25 / 2), example_no_signal)]"
  have pre: "\<not> bReceivedValidFrame example_callback \<and> LastHasFrameTime example_callback < 1 / 10
      \<and> MediaState example_callback \<noteq> Error
      \<and> (\<forall>e\<in>set (?e0 # ?es). \<not> bHasInputSource (snd e) \<and> AudioBuffer (snd e) = None)
      \<and> sorted (map (\<lambda>e. CurrentTime (fst e)) (?e0 # ?es))"
    by (simp add: example_defs)
  from no_signal_timeout[OF example_Heap, THEN conjunct1, rule_format, OF pre, of example_ext]
  obtain w' cb' where r: "run_frames example_ext 0 (?e0 # ?es) example_world = Inr w'"
    and h: "Heap w' 0 = Some cb'"
    and imp: "MediaState cb' = Error \<longrightarrow>
         CurrentTime (fst (last (?e0 # ?es))) - CurrentTime (fst ?e0) > 2"
    by blast
  have "\<exists>v cb. run_frames example_ext 0 (?e0 # ?es) example_world = Inr v
           \<and> Heap v 0 = Some cb \<and> MediaState cb = Error"
    by (simp add: frame_defs example_defs)
  with r h have "MediaState cb' = Error" by auto
  with r h imp
  show "\<exists>w' cb'. run_frames example_ext 0
        [(at_time 10, example_no_signal), (at_time 11, example_no_signal),
         (at_time (25 / 2), example_no_signal)] example_world = Inr w'
      \<and> Heap w' 0 = Some cb' \<and> MediaState cb' = Error
      \<and> CurrentTime (fst (at_time (25 / 2), example_no_signal)) - CurrentTime (fst (at_time 10, example_no_signal)) > 2"
    by auto
next
  have pre: "MediaPlayer example_callback \<and> bHasInputSource valid_frame
             \<and> \<not> bHasInputSource example_no_signal \<and> AudioBuffer example_no_signal = None"
    by (simp add: example_defs valid_frame_def)
  from no_signal_timeout[OF example_Heap, THEN conjunct2, rule_format, OF pre,
      of example_ext "at_time 5" "[(at_time 6, example_frame)]" "at_time 7"]
  show "\<exists>w' cb'. run_frames example_ext 0
          ((at_time 5, valid_frame) # [(at_time 6, example_frame)] @ [(at_time 7, example_no_signal)])
          example_world = Inr w'
      \<and> Heap w' 0 = Some cb' \<and> MediaState cb' = Error"
    by simp
qed

text \<open>
  Claim C3, as amended. Let the callback object be attached and in the state \<open>Playing\<close>, and
  let a frame event carry an interlaced video buffer, report an input source or carry an
  audio buffer (so that it is not a no-signal event), and find the video occupancy plus one
  below the tolerated capacity, which is the \<^verbatim>\<open>int32\<close> product of the video maximum and
  the tolerance 2 (line 269). Then the method makes two samples of the buffer, the even field
  and then the odd field, and appends each one whose initialisation succeeds; when both
  succeed, exactly these two are added to the video queue, in this order. The presentation
  time of the odd field is that of the even field plus one interval of the frame rate; with a
  timecode in the event the two timecodes agree but for the frame number, which is one higher
  for the odd field, and without one neither sample has a timecode.

  The claim as written does not ask for an input source or an audio buffer; an event with a
  video buffer and neither of them takes the no-signal branch and adds nothing (see the
  counterexample below).
\<close>

theorem field_doubling:
  assumes hp: "Heap w a = Some cb" and at: "MediaPlayer cb" and pl: "MediaState cb = Playing"
    and sig: "bHasInputSource i \<or> AudioBuffer i \<noteq> None"
    and vb: "VideoBuffer i = Some buf" and il: "FieldDominance i = Interlaced"
    and cap: "NumVideoSamples (get_base w) + 1
                < int32_mul (MaxNumVideoFrameBuffer cb) ToleratedExtraMaxBufferCount"
  shows "\<exists>w' fe fo. OnFrameReceived x c i a w = Inr w'
           \<and> VideoSamples (get_base w') = VideoSamples (get_base w)
                @ (if TextureInitialize x fe then [fe] else [])
                @ (if TextureInitialize x fo then [fo] else [])
           \<and> (TextureInitialize x fe \<and> TextureInitialize x fo \<longrightarrow>
                 VideoSamples (get_base w') = VideoSamples (get_base w) @ [fe, fo])
           \<and> TS_bUseEvenLine fe = Some True \<and> TS_bUseEvenLine fo = Some False
           \<and> TS_Buffer fe = buf \<and> TS_Buffer fo = buf
           \<and> TS_Time fo = TS_Time fe + IntervalTicks x (VideoFrameRate (get_base w))
           \<and> (bHaveTimecode i \<longrightarrow>
                 (\<exists>t. TS_Timecode fe = Some t \<and> TS_Timecode fo = Some (t\<lparr>Frames := Frames t + 1\<rparr>)))
           \<and> (\<not> bHaveTimecode i \<longrightarrow> TS_Timecode fe = None \<and> TS_Timecode fo = None)"
proof -
  let ?cb1 = "cb\<lparr>bReceivedValidFrame := (bReceivedValidFrame cb \<or> bHasInputSource i)\<rparr>"
  from FrameReceived_playing[OF at pl sig, of x c w] obtain d cb2 w2 cb3 w3 where
    dt: "DecodeTimecode x c i ?cb1 w = (d, cb2, w2)"
    and pa: "ProcessAudio x i d cb2 w2 = (cb3, w3)"
    and pv: "FrameReceived x c i cb w = ProcessVideo x i d cb3 w3" by blast
  note D = DecodeTimecode_props[OF dt]
  note A = ProcessAudio_props[OF pa]
  have b2: "get_base w2 = get_base w" using D(1) by (simp add: get_base_def)
  have vs3: "VideoSamples (get_base w3) = VideoSamples (get_base w)" using A(1) b2 by simp
  have fr3: "VideoFrameRate (get_base w3) = VideoFrameRate (get_base w)" using A(2) b2 by simp
  have m3: "MaxNumVideoFrameBuffer cb3 = MaxNumVideoFrameBuffer cb" using A(6) D(6) by simp
  have cap3: "NumVideoSamples (get_base w3) + 1
                < int32_mul (MaxNumVideoFrameBuffer cb3) ToleratedExtraMaxBufferCount"
    using cap vs3 m3 by (simp add: NumVideoSamples_def)
  define fe where "fe = make_TextureSample (Some True) buf i (DecodedTime d) (VideoFrameRate (get_base w3))
                   (DecodedTimecode d) (bIsSRGBInput cb3)"
  define fo where "fo = make_TextureSample (Some False) buf i (DecodedTimeF2 d) (VideoFrameRate (get_base w3))
                   (DecodedTimecodeF2 d) (bIsSRGBInput cb3)"
  from ProcessVideo_interlaced[OF vb il cap3, of x d] obtain w4 where
    pv4: "ProcessVideo x i d cb3 w3 = (cb3, w4)"
    and vs4: "VideoSamples (get_base w4) = VideoSamples (get_base w3)
                @ (if TextureInitialize x fe then [fe] else [])
                @ (if TextureInitialize x fo then [fo] else [])"
    unfolding fe_def fo_def by blast
  have on: "OnFrameReceived x c i a w = Inr (store a cb3 w4)"
    using hp pv pv4 by (simp add: OnFrameReceived_def)
  have f: "TS_bUseEvenLine fe = Some True" "TS_bUseEvenLine fo = Some False"
    "TS_Buffer fe = buf" "TS_Buffer fo = buf"
    "TS_Time fe = DecodedTime d" "TS_Time fo = DecodedTimeF2 d"
    "TS_Timecode fe = DecodedTimecode d" "TS_Timecode fo = DecodedTimecodeF2 d"
    by (simp_all add: fe_def fo_def make_TextureSample_def)
  have tm: "TS_Time fo = TS_Time fe + IntervalTicks x (VideoFrameRate (get_base w))"
    using D(7) f(5,6) by simp
  have tc1: "bHaveTimecode i \<longrightarrow>
       (\<exists>t. TS_Timecode fe = Some t \<and> TS_Timecode fo = Some (t\<lparr>Frames := Frames t + 1\<rparr>))"
    using D(8) f(7,8) by simp
  have tc2: "\<not> bHaveTimecode i \<longrightarrow> TS_Timecode fe = None \<and> TS_Timecode fo = None"
    using D(9) f(7,8) by simp
  have v: "VideoSamples (get_base (store a cb3 w4)) = VideoSamples (get_base w)
             @ (if TextureInitialize x fe then [fe] else [])
             @ (if TextureInitialize x fo then [fo] else [])"
    using vs4 vs3 by (simp add: store_fields)
  then have v2: "TextureInitialize x fe \<and> TextureInitialize x fo \<longrightarrow>
      VideoSamples (get_base (store a cb3 w4)) = VideoSamples (get_base w) @ [fe, fo]"
    by simp
  from on v v2 f(1-4) tm tc1 tc2 show ?thesis by blast
qed

text \<open>
  Counterexample to claim C3 as written: an interlaced video buffer arrives in the state
  \<open>Playing\<close> with an empty video queue, but the event reports no input source and has no
  audio buffer. The method returns from its no-signal branch and the video queue stays
  empty.
\<close>

theorem field_doubling_counterexample:
  "MediaPlayer example_callback \<and> MediaState example_callback = Playing
   \<and> VideoBuffer example_no_signal = Some 200 \<and> FieldDominance example_no_signal = Interlaced
   \<and> NumVideoSamples (get_base example_world) + 1
        < int32_mul (MaxNumVideoFrameBuffer example_callback) ToleratedExtraMaxBufferCount
   \<and> OnFrameReceived example_ext (at_time 5) example_no_signal 0 example_world
        = Inr (store 0 (example_callback\<lparr>LastHasFrameTime := 5\<rparr>) example_world)
   \<and> VideoSamples (get_base (store 0 (example_callback\<lparr>LastHasFrameTime := 5\<rparr>) example_world)) = []"
  by (simp add: frame_defs example_defs)

text \<open>
  Witness for C3: the example frame (interlaced, timecode 01:02:03:04) on the empty queue
  gives the two field samples, 400000 ticks and one frame number apart.
\<close>

theorem field_doubling_witness:
  "\<exists>w' fe fo. OnFrameReceived example_ext (at_time 5) example_frame 0 example_world = Inr w'
      \<and> VideoSamples (get_base w') = [fe, fo]
      \<and> TS_bUseEvenLine fe = Some True \<and> TS_bUseEvenLine fo = Some False
      \<and> TS_Time fo = TS_Time fe + 400000
      \<and> (\<exists>t. TS_Timecode fe = Some t \<and> TS_Timecode fo = Some (t\<lparr>Frames := Frames t + 1\<rparr>))"
proof -
  have at: "MediaPlayer example_callback" and pl: "MediaState example_callback = Playing"
    and sig: "bHasInputSource example_frame \<or> AudioBuffer example_frame \<noteq> None"
    and vb: "VideoBuffer example_frame = Some 200" and il: "FieldDominance example_frame = Interlaced"
    and cap: "NumVideoSamples (get_base example_world) + 1
                < int32_mul (MaxNumVideoFrameBuffer example_callback) ToleratedExtraMaxBufferCount"
    and tc: "bHaveTimecode example_frame"
    and vs: "VideoSamples (get_base example_world) = []"
    and iv: "IntervalTicks example_ext (VideoFrameRate (get_base example_world)) = 400000"
    by (simp_all add: example_defs get_base_def NumVideoSamples_def ToleratedExtraMaxBufferCount_def
        int32_mul_def)
  have init: "TextureInitialize example_ext s" for s by (simp add: example_ext_def)
  from field_doubling[OF example_Heap at pl sig vb il cap, of example_ext "at_time 5"] tc vs iv init
  show ?thesis by auto
qed

text \<open>
  Claim C4, evaluated. The example frame carries an audio buffer of 1920 bytes, 2 channels at
  48000 Hz, and is enqueued in the state \<open>Playing\<close>. The sample has 1920 / 4 = 480 samples, and
  the track format that \<^verbatim>\<open>UpdateAudioTrackFormat\<close> reports afterwards has the channel count
  and sample rate of the event, but 4 in \<open>BitsPerSample\<close>: the source stores
  \<^verbatim>\<open>sizeof(int32)\<close>, a number of bytes, in the field it documents as the number of audio
  bits per sample. The claim says 32.
\<close>

theorem audio_track_format_bits_per_sample:
  "\<exists>w' cb' s. OnFrameReceived example_ext (at_time 5) example_frame 0 example_world = Inr w'
      \<and> Heap w' 0 = Some cb'
      \<and> AudioBufferSize example_frame = 1920
      \<and> AudioSamples (get_base w') = [s] \<and> AS_NumSamples s = 1920 div 4
      \<and> NumChannels (UpdateAudioTrackFormat cb' (AudioTrackFormat (get_base w')))
           = NumberOfAudioChannel example_frame
      \<and> SampleRate (UpdateAudioTrackFormat cb' (AudioTrackFormat (get_base w'))) = AudioRate example_frame
      \<and> BitsPerSample (UpdateAudioTrackFormat cb' (AudioTrackFormat (get_base w'))) = 4
      \<and> BitsPerSample (UpdateAudioTrackFormat cb' (AudioTrackFormat (get_base w'))) \<noteq> 32"
  by (simp add: frame_defs example_defs UpdateAudioTrackFormat_def)

text \<open>
  Claim C5. After \<^verbatim>\<open>Uninitialize\<close> has returned, if the callback object still exists (the
  capture library holds a reference), its back-reference to the player is cleared, and
  \<^verbatim>\<open>OnFrameReceived\<close> on it returns with the whole state unchanged, for every frame event
  and every sequence of frame events: no sample is added, no counter changes, the media state
  and all other fields stay as they are.
\<close>

theorem OnFrameReceived_after_Uninitialize:
  assumes "Uninitialize a w = Inr w1" and "Heap w1 a = Some cb1"
  shows "\<not> MediaPlayer cb1 \<and> OnFrameReceived x c i a w1 = Inr w1 \<and> run_frames x a evs w1 = Inr w1"
  using Uninitialize_detaches[OF assms] assms(2)
  by (simp add: OnFrameReceived_detached run_frames_detached)

text \<open>
  Witness for C5: the example callback object has two references, so it survives
  \<^verbatim>\<open>Uninitialize\<close>; a frame with audio and video and a no-signal event change nothing.
\<close>

theorem OnFrameReceived_after_Uninitialize_witness:
  "\<exists>w1 cb1. Uninitialize 0 example_world = Inr w1 \<and> Heap w1 0 = Some cb1 \<and> \<not> MediaPlayer cb1
      \<and> OnFrameReceived example_ext (at_time 5) example_frame 0 w1 = Inr w1
      \<and> run_frames example_ext 0 [(at_time 5, example_frame), (at_time 6, example_no_signal)] w1 = Inr w1"
proof -
  define w1 where "w1 = example_world\<lparr>Heap := (Heap example_world)(0 := Some (Uninitialized example_callback)),
                  SdkCalls := SdkCalls example_world @ Unregistration example_callback\<rparr>"
  have u: "Uninitialize 0 example_world = Inr w1"
    by (simp add: Uninitialize_effect[OF example_Heap] w1_def example_callback_def new_callback_def)
  have h: "Heap w1 0 = Some (Uninitialized example_callback)"
    by (simp add: w1_def)
  from OnFrameReceived_after_Uninitialize[OF u h] u h show ?thesis by blast
qed

text \<open>
  Claim C6. With drop-count logging enabled, a call of \<^verbatim>\<open>VerifyFrameDropCount_GameThread\<close>
  observes for each media kind the number of samples it popped plus the drop counter, and
  leaves both drop counters at zero. The call that follows immediately returns as well and
  observes, for each kind, only the number of samples it pops itself: zero when the queue is
  not above its maximum, which is always the case when the maximum is not negative.
\<close>

theorem drop_counters_reset_on_read:
  assumes v1: "VerifyFrameDropCount_GameThread u a w = Inr (w1, na, nv)"
    and vf: "bVerifyFrameDropCount (ThePlayer w)" and hp: "Heap w a = Some cb"
  shows "na = AudioOverflow cb w + AudioFrameDropCount cb
       \<and> nv = VideoOverflow cb w + VideoFrameDropCount cb
       \<and> (\<exists>cb1 w2 na2 nv2. Heap w1 a = Some cb1
             \<and> AudioFrameDropCount cb1 = 0 \<and> VideoFrameDropCount cb1 = 0
             \<and> MaxNumAudioFrameBuffer cb1 = MaxNumAudioFrameBuffer cb
             \<and> MaxNumVideoFrameBuffer cb1 = MaxNumVideoFrameBuffer cb
             \<and> VerifyFrameDropCount_GameThread u a w1 = Inr (w2, na2, nv2)
             \<and> na2 = AudioOverflow cb1 w1 \<and> nv2 = VideoOverflow cb1 w1
             \<and> (NumAudioSamples (get_base w1) \<le> MaxNumAudioFrameBuffer cb \<longrightarrow> na2 = 0)
             \<and> (NumVideoSamples (get_base w1) \<le> MaxNumVideoFrameBuffer cb \<longrightarrow> nv2 = 0)
             \<and> (0 \<le> MaxNumAudioFrameBuffer cb \<longrightarrow> na2 = 0)
             \<and> (0 \<le> MaxNumVideoFrameBuffer cb \<longrightarrow> nv2 = 0))"
proof -
  note r1 = Verify_result[OF v1 hp]
  define cb1 where "cb1 = cb\<lparr>AudioFrameDropCount := 0, VideoFrameDropCount := 0\<rparr>"
  have h1: "Heap w1 a = Some cb1" using r1(7) vf by (simp add: cb1_def)
  have m1: "MediaPlayer cb1" using r1(1) by (simp add: cb1_def)
  from Verify_total[OF h1 m1] obtain w2 na2 nv2
    where v2: "VerifyFrameDropCount_GameThread u a w1 = Inr (w2, na2, nv2)" by blast
  note r2 = Verify_result[OF v2 h1]
  have vf1: "bVerifyFrameDropCount (ThePlayer w1)" using r1(4) vf by simp
  have na2: "na2 = AudioOverflow cb1 w1" and nv2: "nv2 = VideoOverflow cb1 w1"
    using r2(5,6) vf1 by (simp_all add: cb1_def)
  have la: "0 \<le> MaxNumAudioFrameBuffer cb \<longrightarrow> NumAudioSamples (get_base w1) \<le> MaxNumAudioFrameBuffer cb"
    using r1(2) trimmed_length[of "MaxNumAudioFrameBuffer cb" "AudioSamples (get_base w)"]
    by (simp add: NumAudioSamples_def AudioOverflow_def)
  have lv: "0 \<le> MaxNumVideoFrameBuffer cb \<longrightarrow> NumVideoSamples (get_base w1) \<le> MaxNumVideoFrameBuffer cb"
    using r1(3) trimmed_length[of "MaxNumVideoFrameBuffer cb" "VideoSamples (get_base w)"]
    by (simp add: NumVideoSamples_def VideoOverflow_def)
  have za: "NumAudioSamples (get_base w1) \<le> MaxNumAudioFrameBuffer cb \<longrightarrow> na2 = 0"
    by (simp add: na2 AudioOverflow_def cb1_def)
  have zv: "NumVideoSamples (get_base w1) \<le> MaxNumVideoFrameBuffer cb \<longrightarrow> nv2 = 0"
    by (simp add: nv2 VideoOverflow_def cb1_def)
  have "AudioFrameDropCount cb1 = 0" "VideoFrameDropCount cb1 = 0"
    "MaxNumAudioFrameBuffer cb1 = MaxNumAudioFrameBuffer cb"
    "MaxNumVideoFrameBuffer cb1 = MaxNumVideoFrameBuffer cb"
    by (simp_all add: cb1_def)
  with h1 v2 na2 nv2 za zv la lv r1(5,6) vf show ?thesis by auto
qed

text \<open>
  Witness for C6: with three audio drops and one video drop counted, the first call observes
  3 and 1, and the next call observes 0 and 0.
\<close>

theorem drop_counters_reset_on_read_witness:
  "\<exists>w1 w2. VerifyFrameDropCount_GameThread [] 0 (with_callback dropping_callback) = Inr (w1, 3, 1)
      \<and> bVerifyFrameDropCount (ThePlayer (with_callback dropping_callback))
      \<and> VerifyFrameDropCount_GameThread [] 0 w1 = Inr (w2, 0, 0)"
proof -
  let ?w = "with_callback dropping_callback"
  have hp: "Heap ?w 0 = Some dropping_callback" by (simp add: with_callback_def)
  have vf: "bVerifyFrameDropCount (ThePlayer ?w)" by (simp add: example_defs dropping_callback_def)
  have mp: "MediaPlayer dropping_callback" by (simp add: example_defs dropping_callback_def)
  from Verify_total[OF hp mp, of "[]"] obtain w1 na nv where
    v1: "VerifyFrameDropCount_GameThread [] 0 ?w = Inr (w1, na, nv)" by blast
  have ov: "AudioOverflow dropping_callback ?w = 0" "VideoOverflow dropping_callback ?w = 0"
    "AudioFrameDropCount dropping_callback = 3" "VideoFrameDropCount dropping_callback = 1"
    "0 \<le> MaxNumAudioFrameBuffer dropping_callback" "0 \<le> MaxNumVideoFrameBuffer dropping_callback"
    by (simp_all add: AudioOverflow_def VideoOverflow_def NumAudioSamples_def NumVideoSamples_def
        get_base_def example_defs dropping_callback_def)
  from drop_counters_reset_on_read[OF v1 vf hp] ov vf v1 show ?thesis by auto
qed

text \<open>
  Claim C7, evaluated. The player is \<open>Playing\<close> and holds the only reference to its callback
  object, which reports \<open>Error\<close>. \<^verbatim>\<open>TickInput\<close> sees the change, sends \<open>MediaOpenFailed\<close> and
  runs \<^verbatim>\<open>Close\<close>, which runs \<^verbatim>\<open>Uninitialize\<close>; there \<^verbatim>\<open>Release\<close> (line 97) takes the
  reference count to zero and deletes the object while the \<^verbatim>\<open>FScopeLock\<close> of line 87 still
  holds the member \<^verbatim>\<open>CallbackLock\<close>, which the end of the scope then unlocks in freed
  memory. The claim says that the channel is torn down before \<^verbatim>\<open>TickInput\<close> returns; here
  the teardown does not return in a defined state.

  While another reference exists the call is as claimed (lemmas \<open>TickInput_Error\<close> and
  \<open>Close_attached\<close>), and so is the half for \<open>Playing\<close> (lemma \<open>TickInput_Playing\<close>).
\<close>

theorem TickInput_state_change:
  "EventCallback (ThePlayer (with_callback failed_callback)) = Some 0
   \<and> Heap (with_callback failed_callback) 0 = Some failed_callback
   \<and> RefCounter failed_callback = 1 \<and> MediaState failed_callback = Error
   \<and> CurrentState (get_base (with_callback failed_callback)) = Playing
   \<and> TickInput example_ext (with_callback failed_callback) = Inl UseAfterFree"
proof -
  let ?w = "with_callback failed_callback"
  have h: "Heap ?w 0 = Some failed_callback"
    and e: "EventCallback (ThePlayer ?w) = Some 0"
    and r: "RefCounter failed_callback = 1" and m: "MediaState failed_callback = Error"
    and c: "CurrentState (get_base ?w) = Playing"
    by (simp_all add: with_callback_def example_world_def example_base_def failed_callback_def
        get_base_def)
  let ?w1 = "ReceiveMediaEvent MediaOpenFailed (set_base ((get_base ?w)\<lparr>CurrentState := Error\<rparr>) ?w)"
  have e1: "EventCallback (ThePlayer ?w1) = Some 0" and h1: "Heap ?w1 0 = Some failed_callback"
    using e h by (simp_all add: ReceiveMediaEvent_def set_base_def)
  have "Close example_ext ?w1 = Inl UseAfterFree"
    using r by (simp add: Close_attached[OF e1 h1])
  moreover have "MediaState failed_callback \<noteq> CurrentState (get_base ?w)" using m c by simp
  ultimately have "TickInput example_ext ?w = Inl UseAfterFree"
    using TickInput_Error[OF e h _ m, of example_ext] by simp
  with h e r m c show ?thesis by simp
qed

text \<open>
  Claim C8. When the vendor runtime is not initialised, or the card may not be used,
  \<^verbatim>\<open>Open\<close> returns false and changes nothing but the log, to which it adds one message: the
  player (its callback pointer, pools and current state), the store of callback objects, the
  calls into the capture library and the event sink are as before.
\<close>

theorem Open_precondition_failure:
  assumes "\<not> IsInitialized x \<or> \<not> CanUseBlackmagicCard x"
  shows "\<exists>m. Open x Url Options w = Inr (False, w\<lparr>Log := Log w @ [m]\<rparr>)"
  using assms by (auto simp: Open_def add_log_def)

text \<open>Witness for C8: the example state with a runtime that is not initialised.\<close>

theorem Open_precondition_failure_witness:
  "\<not> IsInitialized (example_ext\<lparr>IsInitialized := False\<rparr>)
   \<and> (\<exists>m. Open (example_ext\<lparr>IsInitialized := False\<rparr>) ''blackmagic://device0''
             \<lparr>Opt_DeviceIndex = None, Opt_CaptureVideo = None, Opt_BlackmagicVideoFormat = None,
              Opt_ColorFormat = None, Opt_SRGBInput = None, Opt_TimecodeFormat = None,
              Opt_CaptureAudio = None, Opt_AudioChannelOption = None, Opt_LogDropFrame = None,
              Opt_EncodeTimecodeInTexel = None, Opt_MaxAudioFrameBuffer = None,
              Opt_MaxVideoFrameBuffer = None\<rparr> example_world
           = Inr (False, example_world\<lparr>Log := Log example_world @ [m]\<rparr>))"
proof -
  have n: "\<not> IsInitialized (example_ext\<lparr>IsInitialized := False\<rparr>)" by simp
  then have "\<not> IsInitialized (example_ext\<lparr>IsInitialized := False\<rparr>)
             \<or> \<not> CanUseBlackmagicCard (example_ext\<lparr>IsInitialized := False\<rparr>)" by simp
  from Open_precondition_failure[OF this] n show ?thesis by blast
qed

text \<open>
  Claim C9, evaluated. The player holds the only reference to its callback object. The first
  \<^verbatim>\<open>Close\<close> runs \<^verbatim>\<open>Uninitialize\<close>, where \<^verbatim>\<open>Release\<close> (line 97) takes the reference count
  to zero and deletes the object while the \<^verbatim>\<open>FScopeLock\<close> of line 87 still holds the member
  \<^verbatim>\<open>CallbackLock\<close>; the end of the scope unlocks it in freed memory. The claim says that
  two calls of \<^verbatim>\<open>Close\<close> produce no error, for every player state; here the first call
  already fails.

  Where the first call returns, the second is as claimed (lemma \<open>Close_second_call\<close>): it
  finds no callback object, unregisters and releases nothing.
\<close>

theorem Close_idempotent:
  "EventCallback (ThePlayer (with_callback last_reference_callback)) = Some 0
   \<and> Heap (with_callback last_reference_callback) 0 = Some last_reference_callback
   \<and> RefCounter last_reference_callback = 1
   \<and> Uninitialize 0 (with_callback last_reference_callback) = Inl UseAfterFree
   \<and> Close example_ext (with_callback last_reference_callback) = Inl UseAfterFree"
proof -
  have h: "Heap (with_callback last_reference_callback) 0 = Some last_reference_callback"
    and e: "EventCallback (ThePlayer (with_callback last_reference_callback)) = Some 0"
    and r: "RefCounter last_reference_callback = 1"
    by (simp_all add: with_callback_def example_world_def last_reference_callback_def)
  show ?thesis
    using h e r by (simp add: Close_attached[OF e h] Uninitialize_effect[OF h])
qed

text \<open>
  Claim C10. Let one operation (an event of the capture library or an operation of the
  consumer) take the state \<open>w\<close> to \<open>w'\<close>, and let the base class \<^verbatim>\<open>Open\<close> set no media state
  to \<open>Playing\<close>. If the callback object at an address is \<open>Playing\<close> in \<open>w'\<close>, then it was
  \<open>Playing\<close> in \<open>w\<close> already, or the operation is \<^verbatim>\<open>OnInitializationCompleted(true)\<close> on
  that object. Moreover a frame event leaves the media state of its object unchanged or
  sets it to \<open>Error\<close>, \<^verbatim>\<open>OnFrameFormatChanged\<close> sets it to \<open>Error\<close>, and
  \<^verbatim>\<open>OnShutdownCompleted\<close> sets it to \<open>Closed\<close>.
\<close>

theorem Playing_only_by_OnInitializationCompleted:
  assumes super: "\<And>u opts v ok v' c'. SuperOpen x u opts v = Inr (ok, v') \<Longrightarrow> Heap v' b = Some c'
                    \<Longrightarrow> MediaState c' = Playing \<Longrightarrow> Playing_at b v"
    and step: "perform x op w = Inr w'" and h: "Heap w' b = Some cb'"
  shows "(MediaState cb' = Playing \<longrightarrow> Playing_at b w \<or> op = Ev_InitializationCompleted True b)
       \<and> (\<forall>c i. op = Ev_FrameReceived c i b \<longrightarrow>
             (\<exists>cb. Heap w b = Some cb \<and> (MediaState cb' = MediaState cb \<or> MediaState cb' = Error)))
       \<and> (op = Ev_FrameFormatChanged b \<longrightarrow> MediaState cb' = Error)
       \<and> (op = Ev_ShutdownCompleted b \<longrightarrow> MediaState cb' = Closed)"
proof (intro conjI impI allI)
  assume "MediaState cb' = Playing"
  show "Playing_at b w \<or> op = Ev_InitializationCompleted True b"
  proof (rule perform_Playing[where x = x and b = b, OF _ step h \<open>MediaState cb' = Playing\<close>])
    fix u opts v ok v' c'
    assume "SuperOpen x u opts v = Inr (ok, v')" "Heap v' b = Some c'" "MediaState c' = Playing"
    then show "Playing_at b v" by (rule super)
  qed
next
  fix c i assume "op = Ev_FrameReceived c i b"
  with step have "OnFrameReceived x c i b w = Inr w'" by simp
  from OnFrameReceived_state[OF this h]
  show "\<exists>cb. Heap w b = Some cb \<and> (MediaState cb' = MediaState cb \<or> MediaState cb' = Error)"
    by auto
next
  assume "op = Ev_FrameFormatChanged b"
  with step have "OnFrameFormatChanged b w = Inr w'" by simp
  from OnFrameFormatChanged_state[OF this h] show "MediaState cb' = Error" by simp
next
  assume "op = Ev_ShutdownCompleted b"
  with step have "OnShutdownCompleted b w = Inr w'" by simp
  from OnShutdownCompleted_state[OF this h] show "MediaState cb' = Closed" by simp
qed

text \<open>Witness for C10: a format change on the example callback object ends in \<open>Error\<close>.\<close>

theorem Playing_only_by_OnInitializationCompleted_witness:
  "\<exists>w' cb'. perform example_ext (Ev_FrameFormatChanged 0) example_world = Inr w'
      \<and> Heap w' 0 = Some cb' \<and> MediaState cb' = Error"
proof -
  define w' where "w' = store 0 (example_callback\<lparr>MediaState := Error\<rparr>)
      (add_log (VideoFormatChanged (Some (OpenUrl (get_base example_world)))) example_world)"
  have step: "perform example_ext (Ev_FrameFormatChanged 0) example_world = Inr w'"
    by (simp add: OnFrameFormatChanged_def w'_def example_callback_def new_callback_def)
  have h: "Heap w' 0 = Some (example_callback\<lparr>MediaState := Error\<rparr>)"
    by (simp add: w'_def store_def)
  have "MediaState (example_callback\<lparr>MediaState := Error\<rparr>) = Error"
  proof -
    have "Ev_FrameFormatChanged 0 = Ev_FrameFormatChanged 0 \<longrightarrow>
          MediaState (example_callback\<lparr>MediaState := Error\<rparr>) = Error"
    proof (rule Playing_only_by_OnInitializationCompleted[where x = example_ext and b = 0, OF _ step h, THEN conjunct2, THEN conjunct2, THEN conjunct1])
      fix u opts v ok v' c'
      assume "SuperOpen example_ext u opts v = Inr (ok, v')" "Heap v' 0 = Some c'" "MediaState c' = Playing"
      then show "Playing_at 0 v" by (auto simp: example_ext_def)
    qed
    then show ?thesis by simp
  qed
  with step h show ?thesis by blast
qed

end
